theory Spec2Isabelle
  imports Main
begin

section \<open>Data model of the TransparentCrowdfunding contract\<close>

text \<open>
  The ledger is the Solidity contract \<^verbatim>\<open>TransparentCrowdfunding\<close>. Its storage becomes
  a record, every external function a HOL function from the storage before the call to
  either an error (the call reverts and the storage is the one before the call) or the
  storage after it. A \<^verbatim>\<open>uint256\<close> is a natural number; Solidity 0.8 checks every
  addition and multiplication and reverts with \<^verbatim>\<open>Panic(0x11)\<close> when the result
  exceeds \<open>2 ^ 256 - 1\<close>, and the model writes that check out at each operation.
  A \<^verbatim>\<open>mapping\<close> is a total function: a key never written reads as the zero value.
\<close>

type_synonym address = nat
type_synonym uint256 = nat

definition max_uint256 :: uint256 where
  "max_uint256 = 2 ^ 256 - 1"

datatype ProjectStatus = Active | Completed | Cancelled

datatype ExpenseCategory = Development | Marketing | Operations | Infrastructure | Other

record Project =
  title :: string
  description :: string
  creator :: address
  goalAmount :: uint256
  currentAmount :: uint256
  deadline :: uint256
  status :: ProjectStatus
  fundsReleased :: bool
  totalExpenses :: uint256
  createdAt :: uint256

record Expense =
  exp_description :: string
  exp_amount :: uint256
  exp_category :: ExpenseCategory
  exp_timestamp :: uint256
  exp_approved :: bool
  exp_proofUrl :: string

record Contribution =
  contributor :: address
  con_amount :: uint256
  con_timestamp :: uint256

datatype role = DEFAULT_ADMIN_ROLE | PROJECT_CREATOR_ROLE

datatype event =
    ProjectCreated uint256 string address uint256 uint256
  | ContributionMade uint256 address uint256
  | ExpenseSubmitted uint256 uint256 string uint256
  | ExpenseApproved uint256 uint256
  | FundsReleased uint256 uint256
  | ProjectCompleted uint256
  | ProjectCancelled uint256
  | RefundClaimed uint256 address uint256

text \<open>
  The storage of the contract: its five mappings and the project counter, the state of
  the three inherited contracts (the role table, the pause flag, the reentrancy lock),
  the ether the contract holds, and the log of emitted events.
\<close>

record state =
  projects :: "uint256 \<Rightarrow> Project"
  projectExpenses :: "uint256 \<Rightarrow> Expense list"
  projectContributions :: "uint256 \<Rightarrow> Contribution list"
  contributions :: "uint256 \<Rightarrow> address \<Rightarrow> uint256"
  refundClaimed :: "uint256 \<Rightarrow> address \<Rightarrow> bool"
  projectCount :: uint256
  roles :: "role \<Rightarrow> address \<Rightarrow> bool"
  paused :: bool
  entered :: bool
  balance :: uint256
  events :: "event list"

text \<open>
  A revert carries the message of the \<^verbatim>\<open>require\<close> that failed, or the panic code of a
  checked operation (\<open>17\<close> is \<^verbatim>\<open>0x11\<close>, arithmetic overflow; \<open>50\<close> is \<^verbatim>\<open>0x32\<close>, an array
  index out of bounds), or one of the three error kinds of the inherited modifiers.
\<close>

datatype error =
    Revert string
  | Panic nat
  | SystemPaused
  | PermissionDenied
  | ReentrancyDetected

definition AlreadyClaimed :: error where
  "AlreadyClaimed = Revert ''Refund already claimed''"

definition TransferFailed :: error where
  "TransferFailed = Revert ''Transfer failed''"

definition MINIMUM_CONTRIBUTION :: uint256 where
  "MINIMUM_CONTRIBUTION = 10 ^ 16"

definition days :: uint256 where
  "days = 86400"

definition MINIMUM_FUNDING_PERIOD :: uint256 where
  "MINIMUM_FUNDING_PERIOD = 1 * days"

definition MAXIMUM_FUNDING_PERIOD :: uint256 where
  "MAXIMUM_FUNDING_PERIOD = 90 * days"

definition zero_project :: Project where
  "zero_project = \<lparr> title = [], description = [], creator = 0, goalAmount = 0,
     currentAmount = 0, deadline = 0, status = Active, fundsReleased = False,
     totalExpenses = 0, createdAt = 0 \<rparr>"

text \<open>The constructor: the deployer receives both roles; everything else is zero.\<close>

definition constructor :: "address \<Rightarrow> state" where
  "constructor deployer = \<lparr> projects = (\<lambda>_. zero_project), projectExpenses = (\<lambda>_. []),
     projectContributions = (\<lambda>_. []), contributions = (\<lambda>_ _. 0),
     refundClaimed = (\<lambda>_ _. False), projectCount = 0,
     roles = (\<lambda>_ a. a = deployer), paused = False, entered = False, balance = 0,
     events = [] \<rparr>"

subsection \<open>The inherited modifiers\<close>

text \<open>
  Modelled from the spec: the modifier \<^verbatim>\<open>whenNotPaused\<close> of the imported
  \<^verbatim>\<open>Pausable\<close> contract, whose source is not part of the repository. While the
  system is paused the call fails with \<open>SystemPaused\<close>.
\<close>

definition whenNotPaused :: "(state \<Rightarrow> error + state) \<Rightarrow> state \<Rightarrow> error + state" where
  "whenNotPaused body s = (if paused s then Inl SystemPaused else body s)"

text \<open>
  Modelled from the spec: the modifier \<^verbatim>\<open>onlyRole\<close> of the imported
  \<^verbatim>\<open>AccessControl\<close> contract, whose source is not part of the repository. A caller
  without the role fails with \<open>PermissionDenied\<close>.
\<close>

definition onlyRole :: "role \<Rightarrow> address \<Rightarrow> (state \<Rightarrow> error + state) \<Rightarrow> state \<Rightarrow> error + state" where
  "onlyRole r sender body s = (if roles s r sender then body s else Inl PermissionDenied)"

text \<open>
  Modelled from the spec: the modifier \<^verbatim>\<open>nonReentrant\<close> of the imported
  \<^verbatim>\<open>ReentrancyGuard\<close> contract, whose source is not part of the repository. One
  lock: entry fails with \<open>ReentrancyDetected\<close> when it is set, sets it for the
  duration of the body, and exit clears it (a failing body reverts the whole call, the
  lock with it).
\<close>

definition nonReentrant :: "(state \<Rightarrow> error + state) \<Rightarrow> state \<Rightarrow> error + state" where
  "nonReentrant body s =
     (if entered s then Inl ReentrancyDetected
      else case body (s\<lparr>entered := True\<rparr>) of
             Inl e \<Rightarrow> Inl e
           | Inr s' \<Rightarrow> Inr (s'\<lparr>entered := False\<rparr>))"

subsection \<open>The external functions\<close>

definition emit :: "event \<Rightarrow> state \<Rightarrow> state" where
  "emit e s = s\<lparr>events := events s @ [e]\<rparr>"

definition createProject ::
  "address \<Rightarrow> uint256 \<Rightarrow> string \<Rightarrow> string \<Rightarrow> uint256 \<Rightarrow> uint256 \<Rightarrow> state \<Rightarrow> error + state" where
  "createProject sender now title' description' goalAmount' durationInDays =
     whenNotPaused (onlyRole PROJECT_CREATOR_ROLE sender (\<lambda>s.
       if \<not> goalAmount' > 0 then Inl (Revert ''Goal amount must be greater than 0'')
       else if durationInDays * days > max_uint256 then Inl (Panic 17)
       else if \<not> durationInDays * days \<ge> MINIMUM_FUNDING_PERIOD
         then Inl (Revert ''Duration too short'')
       else if \<not> durationInDays * days \<le> MAXIMUM_FUNDING_PERIOD
         then Inl (Revert ''Duration too long'')
       else if projectCount s + 1 > max_uint256 then Inl (Panic 17)
       else if now + durationInDays * days > max_uint256 then Inl (Panic 17)
       else
         let projectId = projectCount s;
             deadline' = now + durationInDays * days;
             newProject = (projects s projectId)\<lparr> title := title',
               description := description', creator := sender, goalAmount := goalAmount',
               deadline := deadline', status := Active, createdAt := now \<rparr>
         in Inr (emit (ProjectCreated projectId title' sender goalAmount' deadline')
                  (s\<lparr> projectCount := projectCount s + 1,
                      projects := (projects s)(projectId := newProject) \<rparr>))))"

text \<open>
  \<^verbatim>\<open>contribute\<close> is payable: the value sent is credited to the contract's balance when
  the call is entered, and a revert undoes the credit with everything else.
\<close>

definition contribute ::
  "address \<Rightarrow> uint256 \<Rightarrow> uint256 \<Rightarrow> uint256 \<Rightarrow> state \<Rightarrow> error + state" where
  "contribute sender msg_value now projectId s0 =
     whenNotPaused (nonReentrant (\<lambda>s.
       let project = projects s projectId in
       if \<not> creator project \<noteq> 0 then Inl (Revert ''Project does not exist'')
       else if \<not> status project = Active then Inl (Revert ''Project is not active'')
       else if \<not> now < deadline project
         then Inl (Revert ''Project funding period has ended'')
       else if \<not> msg_value \<ge> MINIMUM_CONTRIBUTION then Inl (Revert ''Contribution too small'')
       else if currentAmount project + msg_value > max_uint256 then Inl (Panic 17)
       else if \<not> currentAmount project + msg_value \<le> goalAmount project
         then Inl (Revert ''Exceeds project goal'')
       else if contributions s projectId sender + msg_value > max_uint256 then Inl (Panic 17)
       else Inr (emit (ContributionMade projectId sender msg_value)
         (s\<lparr> projects := (projects s)(projectId :=
                 project\<lparr>currentAmount := currentAmount project + msg_value\<rparr>),
             contributions := (contributions s)(projectId :=
                 (contributions s projectId)(sender :=
                    contributions s projectId sender + msg_value)),
             projectContributions := (projectContributions s)(projectId :=
                 projectContributions s projectId @
                   [\<lparr> contributor = sender, con_amount = msg_value, con_timestamp = now \<rparr>])
           \<rparr>))))
     (s0\<lparr>balance := balance s0 + msg_value\<rparr>)"

definition submitExpense ::
  "address \<Rightarrow> uint256 \<Rightarrow> uint256 \<Rightarrow> string \<Rightarrow> uint256 \<Rightarrow> ExpenseCategory \<Rightarrow> string \<Rightarrow>
     state \<Rightarrow> error + state" where
  "submitExpense sender now projectId description' amount category proofUrl =
     whenNotPaused (\<lambda>s.
       let project = projects s projectId in
       if \<not> sender = creator project then Inl (Revert ''Only creator can submit expenses'')
       else if \<not> status project \<noteq> Cancelled then Inl (Revert ''Project is cancelled'')
       else if totalExpenses project + amount > max_uint256 then Inl (Panic 17)
       else if \<not> currentAmount project \<ge> totalExpenses project + amount
         then Inl (Revert ''Insufficient funds'')
       else
         let s1 = s\<lparr> projectExpenses := (projectExpenses s)(projectId :=
                    projectExpenses s projectId @
                      [\<lparr> exp_description = description', exp_amount = amount,
                         exp_category = category, exp_timestamp = now,
                         exp_approved = False, exp_proofUrl = proofUrl \<rparr>]) \<rparr>
         in Inr (emit (ExpenseSubmitted projectId (length (projectExpenses s1 projectId) - 1)
                        description' amount) s1))"

text \<open>
  The two functions that pay out take the outbound call as a parameter
  \<open>call_value\<close>: given the recipient, the amount and the storage at the moment of the
  call, it yields the success flag of \<^verbatim>\<open>recipient.call{value: amount}("")\<close> and the
  storage when the call returns (the recipient's code runs in between and may have called
  back into the contract).
\<close>

type_synonym external_call = "address \<Rightarrow> uint256 \<Rightarrow> state \<Rightarrow> bool \<times> state"

definition approveExpense ::
  "external_call \<Rightarrow> address \<Rightarrow> uint256 \<Rightarrow> uint256 \<Rightarrow> state \<Rightarrow> error + state" where
  "approveExpense call_value sender projectId expenseIndex =
     onlyRole DEFAULT_ADMIN_ROLE sender (\<lambda>s.
       let project = projects s projectId in
       if \<not> status project \<noteq> Cancelled then Inl (Revert ''Project is cancelled'')
       else if \<not> expenseIndex < length (projectExpenses s projectId) then Inl (Panic 50)
       else
         let expense = projectExpenses s projectId ! expenseIndex in
         if \<not> \<not> exp_approved expense then Inl (Revert ''Expense already approved'')
         else if totalExpenses project + exp_amount expense > max_uint256 then Inl (Panic 17)
         else
           let s1 = s\<lparr> projectExpenses := (projectExpenses s)(projectId :=
                      (projectExpenses s projectId)[expenseIndex :=
                         expense\<lparr>exp_approved := True\<rparr>]),
                        projects := (projects s)(projectId :=
                          project\<lparr>totalExpenses := totalExpenses project + exp_amount expense\<rparr>)
                      \<rparr>;
               (success, s2) = call_value (creator (projects s1 projectId))
                                 (exp_amount (projectExpenses s1 projectId ! expenseIndex)) s1
           in if \<not> success then Inl (Revert ''Transfer failed'')
              else Inr (emit (FundsReleased projectId
                               (exp_amount (projectExpenses s2 projectId ! expenseIndex)))
                         (emit (ExpenseApproved projectId expenseIndex) s2)))"

definition completeProject :: "address \<Rightarrow> uint256 \<Rightarrow> state \<Rightarrow> error + state" where
  "completeProject sender projectId =
     onlyRole DEFAULT_ADMIN_ROLE sender (\<lambda>s.
       let project = projects s projectId in
       if \<not> status project = Active then Inl (Revert ''Project not active'')
       else Inr (emit (ProjectCompleted projectId)
              (s\<lparr> projects := (projects s)(projectId := project\<lparr>status := Completed\<rparr>) \<rparr>)))"

definition cancelProject :: "address \<Rightarrow> uint256 \<Rightarrow> state \<Rightarrow> error + state" where
  "cancelProject sender projectId =
     onlyRole DEFAULT_ADMIN_ROLE sender (\<lambda>s.
       let project = projects s projectId in
       if \<not> status project = Active then Inl (Revert ''Project not active'')
       else Inr (emit (ProjectCancelled projectId)
              (s\<lparr> projects := (projects s)(projectId := project\<lparr>status := Cancelled\<rparr>) \<rparr>)))"

definition claimRefund :: "external_call \<Rightarrow> address \<Rightarrow> uint256 \<Rightarrow> state \<Rightarrow> error + state" where
  "claimRefund call_value sender projectId =
     nonReentrant (\<lambda>s.
       let project = projects s projectId in
       if \<not> status project = Cancelled then Inl (Revert ''Project not cancelled'')
       else
         let contributionAmount = contributions s projectId sender in
         if \<not> contributionAmount > 0 then Inl (Revert ''No contribution found'')
         else if \<not> \<not> refundClaimed s projectId sender
           then Inl (Revert ''Refund already claimed'')
         else
           let s1 = s\<lparr> refundClaimed := (refundClaimed s)(projectId :=
                      (refundClaimed s projectId)(sender := True)) \<rparr>;
               (success, s2) = call_value sender contributionAmount s1
           in if \<not> success then Inl (Revert ''Transfer failed'')
              else Inr (emit (RefundClaimed projectId sender contributionAmount) s2))"

definition getProjectExpenses :: "uint256 \<Rightarrow> state \<Rightarrow> Expense list" where
  "getProjectExpenses projectId s = projectExpenses s projectId"

definition getProjectContributions :: "uint256 \<Rightarrow> state \<Rightarrow> Contribution list" where
  "getProjectContributions projectId s = projectContributions s projectId"

text \<open>
  Modelled from the spec: \<^verbatim>\<open>_pause\<close>, \<^verbatim>\<open>_unpause\<close> and \<^verbatim>\<open>grantRole\<close> of the imported
  contracts, whose source is not part of the repository: the pause flag is a boolean
  the Admin toggles, and granting a role adds the account to the role's holders.
\<close>

definition pause :: "address \<Rightarrow> state \<Rightarrow> error + state" where
  "pause sender = onlyRole DEFAULT_ADMIN_ROLE sender (\<lambda>s. Inr (s\<lparr>paused := True\<rparr>))"

definition unpause :: "address \<Rightarrow> state \<Rightarrow> error + state" where
  "unpause sender = onlyRole DEFAULT_ADMIN_ROLE sender (\<lambda>s. Inr (s\<lparr>paused := False\<rparr>))"

definition grantProjectCreatorRole :: "address \<Rightarrow> address \<Rightarrow> state \<Rightarrow> error + state" where
  "grantProjectCreatorRole sender account =
     onlyRole DEFAULT_ADMIN_ROLE sender (\<lambda>s.
       Inr (s\<lparr> roles := (roles s)(PROJECT_CREATOR_ROLE :=
                 (roles s PROJECT_CREATOR_ROLE)(account := True)) \<rparr>))"

definition receive :: "uint256 \<Rightarrow> state \<Rightarrow> error + state" where
  "receive msg_value s = Inl (Revert ''Direct deposits not accepted'')"

subsection \<open>Calls, the recipient's code, and transactions\<close>

text \<open>
  A request names an external function with its arguments (for \<^verbatim>\<open>contribute\<close> the
  value sent with the call as well). A call is a request from a sender, together with
  what the recipient of the call's outbound transfer does, should the call make one:
  whether it accepts the ether, and the calls into the contract that its code makes
  before it returns. Those calls are calls again, with recipients of their own. A
  recipient that does not accept reverts, which undoes whatever its code did.
\<close>

datatype request =
    CreateProject string string uint256 uint256
  | Contribute uint256 uint256
  | SubmitExpense uint256 string uint256 ExpenseCategory string
  | ApproveExpense uint256 uint256
  | CompleteProject uint256
  | CancelProject uint256
  | ClaimRefund uint256
  | GetProjectExpenses uint256
  | GetProjectContributions uint256
  | Pause
  | Unpause
  | GrantProjectCreatorRole address
  | Receive uint256
  | ProjectCount

datatype call = Call address request bool "call list"

text \<open>
  What a call hands back to its caller. None of the state-changing functions declares a
  return value; the two views return their list, and the getter of the public counter
  \<^verbatim>\<open>projectCount\<close> returns a number.
\<close>

datatype retval =
    Void
  | Uint uint256
  | Expenses "Expense list"
  | Contributions "Contribution list"

definition void :: "error + state \<Rightarrow> error + retval \<times> state" where
  "void r = (case r of Inl e \<Rightarrow> Inl e | Inr s \<Rightarrow> Inr (Void, s))"

text \<open>
  The outbound call \<^verbatim>\<open>recipient.call{value: amount}("")\<close>: it fails when the contract
  holds less than the amount or the recipient does not accept; otherwise the amount
  leaves the contract and the recipient's code runs (\<open>reentry\<close>) before the call
  returns.
\<close>

definition send_value :: "bool \<Rightarrow> (state \<Rightarrow> state) \<Rightarrow> external_call" where
  "send_value accepts reentry recipient amount s =
     (if balance s < amount \<or> \<not> accepts then (False, s)
      else (True, reentry (s\<lparr>balance := balance s - amount\<rparr>)))"

text \<open>
  \<open>exec now c s\<close> runs the call \<open>c\<close> at block time \<open>now\<close> on storage \<open>s\<close>;
  \<open>reenter now cs s\<close> is the recipient's code making the calls \<open>cs\<close> one after the
  other: a call that reverts leaves the storage as it was and the recipient goes on.
\<close>

fun exec :: "uint256 \<Rightarrow> call \<Rightarrow> state \<Rightarrow> error + retval \<times> state"
  and reenter :: "uint256 \<Rightarrow> call list \<Rightarrow> state \<Rightarrow> state" where
  "exec now (Call sender (CreateProject t d g n) accepts nested) s =
     void (createProject sender now t d g n s)"
| "exec now (Call sender (Contribute p v) accepts nested) s =
     void (contribute sender v now p s)"
| "exec now (Call sender (SubmitExpense p d a c u) accepts nested) s =
     void (submitExpense sender now p d a c u s)"
| "exec now (Call sender (ApproveExpense p i) accepts nested) s =
     void (approveExpense (send_value accepts (\<lambda>s'. reenter now nested s')) sender p i s)"
| "exec now (Call sender (CompleteProject p) accepts nested) s =
     void (completeProject sender p s)"
| "exec now (Call sender (CancelProject p) accepts nested) s =
     void (cancelProject sender p s)"
| "exec now (Call sender (ClaimRefund p) accepts nested) s =
     void (claimRefund (send_value accepts (\<lambda>s'. reenter now nested s')) sender p s)"
| "exec now (Call sender (GetProjectExpenses p) accepts nested) s =
     Inr (Expenses (getProjectExpenses p s), s)"
| "exec now (Call sender (GetProjectContributions p) accepts nested) s =
     Inr (Contributions (getProjectContributions p s), s)"
| "exec now (Call sender Pause accepts nested) s = void (pause sender s)"
| "exec now (Call sender Unpause accepts nested) s = void (unpause sender s)"
| "exec now (Call sender (GrantProjectCreatorRole a) accepts nested) s =
     void (grantProjectCreatorRole sender a s)"
| "exec now (Call sender (Receive v) accepts nested) s = void (receive v s)"
| "exec now (Call sender ProjectCount accepts nested) s = Inr (Uint (projectCount s), s)"
| "reenter now [] s = s"
| "reenter now (c # cs) s =
     reenter now cs (case exec now c s of Inl e \<Rightarrow> s | Inr (r, s') \<Rightarrow> s')"

text \<open>
  A transaction is a call from outside: it either reverts, and the storage is the one
  before, or it returns and the storage is the one the call left. A run is a sequence
  of transactions, each at its block time.
\<close>

definition transact :: "uint256 \<Rightarrow> call \<Rightarrow> state \<Rightarrow> (error + retval) \<times> state" where
  "transact now c s =
     (case exec now c s of Inl e \<Rightarrow> (Inl e, s) | Inr (r, s') \<Rightarrow> (Inr r, s'))"

fun run :: "(uint256 \<times> call) list \<Rightarrow> state \<Rightarrow> state" where
  "run [] s = s"
| "run ((now, c) # cs) s = run cs (snd (transact now c s))"

section \<open>Properties of the storage and a sample ledger\<close>

text \<open>
  A project that exists is within its goal when it has taken no more than its goal and
  what it has taken is the sum of the contributions in its log.
\<close>

definition within_goal :: "uint256 \<Rightarrow> state \<Rightarrow> bool" where
  "within_goal p s \<longleftrightarrow>
     p < projectCount s \<and>
     currentAmount (projects s p) \<le> goalAmount (projects s p) \<and>
     currentAmount (projects s p) = sum_list (map con_amount (projectContributions s p))"

text \<open>
  What holds of every slot of the project table in every storage the contract can
  reach: the slot has taken no more than its goal, what it has taken is the sum of its
  contribution log, and a slot at or beyond the counter has no creator and has taken
  nothing.
\<close>

definition slot_ok :: "uint256 \<Rightarrow> state \<Rightarrow> bool" where
  "slot_ok p s \<longleftrightarrow>
     currentAmount (projects s p) \<le> goalAmount (projects s p) \<and>
     currentAmount (projects s p) = sum_list (map con_amount (projectContributions s p)) \<and>
     (projectCount s \<le> p \<longrightarrow>
        creator (projects s p) = 0 \<and> currentAmount (projects s p) = 0)"

text \<open>
  A project that exists and has left \<open>Active\<close> for the status \<open>st\<close>.
\<close>

definition settled :: "uint256 \<Rightarrow> ProjectStatus \<Rightarrow> state \<Rightarrow> bool" where
  "settled p st s \<longleftrightarrow> p < projectCount s \<and> status (projects s p) = st \<and> st \<noteq> Active"

text \<open>
  A cancelled project that exists, with its list of expenses and its total of approved
  expenses.
\<close>

definition frozen :: "uint256 \<Rightarrow> Expense list \<Rightarrow> uint256 \<Rightarrow> state \<Rightarrow> bool" where
  "frozen p es t s \<longleftrightarrow>
     p < projectCount s \<and> status (projects s p) = Cancelled \<and>
     projectExpenses s p = es \<and> totalExpenses (projects s p) = t"

text \<open>
  A cancelled project that exists, on which the contributor \<open>a\<close>, whose cumulative
  contribution is \<open>c\<close>, has claimed the refund.
\<close>

definition refunded :: "uint256 \<Rightarrow> address \<Rightarrow> uint256 \<Rightarrow> state \<Rightarrow> bool" where
  "refunded p a c s \<longleftrightarrow>
     p < projectCount s \<and> status (projects s p) = Cancelled \<and>
     contributions s p a = c \<and> refundClaimed s p a"

text \<open>
  The sample ledger: account 1 deploys the contract (and so is Admin and
  ProjectCreator) and creates project 0 with a goal of 100 units of 0.01 ether and ten
  days to run; account 2 contributes.
\<close>

definition tx_create :: "uint256 \<times> call" where
  "tx_create = (0, Call 1 (CreateProject ''Well'' ''A village well'' (100 * 10 ^ 16) 10) True [])"

definition well_open :: state where
  "well_open = run [tx_create] (constructor 1)"

definition pledge :: "uint256 \<Rightarrow> uint256 \<times> call" where
  "pledge n = (5, Call 2 (Contribute 0 (n * 10 ^ 16)) True [])"

text \<open>
  Account 2 contributes 40 units twice; the Admin cancels the project; account 2 claims
  the refund.
\<close>

definition well_funded :: state where
  "well_funded = run [pledge 40, pledge 40] well_open"

definition tx_cancel :: "uint256 \<times> call" where
  "tx_cancel = (6, Call 1 (CancelProject 0) True [])"

definition well_cancelled :: state where
  "well_cancelled = run [tx_cancel] well_funded"

definition tx_refund :: "uint256 \<times> call" where
  "tx_refund = (7, Call 2 (ClaimRefund 0) True [])"

definition well_refunded :: state where
  "well_refunded = run [tx_refund] well_cancelled"

text \<open>The creator of project 0 submits an expense of 50 units.\<close>

definition tx_expense :: "uint256 \<times> call" where
  "tx_expense = (6, Call 1 (SubmitExpense 0 ''Pump'' (50 * 10 ^ 16) Infrastructure ''ipfs://pump'') True [])"

text \<open>
  The four functions that pay out or settle a project, none of which carries
  \<^verbatim>\<open>whenNotPaused\<close>, and the calls that request one of them and whose recipients, in
  turn, make only such calls.
\<close>

fun bypasses_pause :: "request \<Rightarrow> bool" where
  "bypasses_pause (ApproveExpense p i) = True"
| "bypasses_pause (ClaimRefund p) = True"
| "bypasses_pause (CompleteProject p) = True"
| "bypasses_pause (CancelProject p) = True"
| "bypasses_pause _ = False"

fun pause_exempt :: "call \<Rightarrow> bool" where
  "pause_exempt (Call sender f accepts nested) = (bypasses_pause f \<and> list_all pause_exempt nested)"

text \<open>The Admin pauses the system, with an expense pending or after the cancellation.\<close>

definition tx_pause :: "uint256 \<times> call" where
  "tx_pause = (6, Call 1 Pause True [])"

definition paused_funded :: state where
  "paused_funded = run [tx_expense, tx_pause] well_funded"

definition paused_cancelled :: state where
  "paused_cancelled = run [tx_pause] well_cancelled"

text \<open>
  The storage \<^verbatim>\<open>approveExpense\<close> has written when it issues the transfer (the expense
  marked approved, its amount added to \<open>totalExpenses\<close>), and the storage
  \<^verbatim>\<open>claimRefund\<close> has written when it issues the transfer (the lock taken, the claim
  marked).
\<close>

definition approved_stage :: "uint256 \<Rightarrow> uint256 \<Rightarrow> state \<Rightarrow> state" where
  "approved_stage p i s =
     s\<lparr> projectExpenses := (projectExpenses s)(p :=
           (projectExpenses s p)[i := (projectExpenses s p ! i)\<lparr>exp_approved := True\<rparr>]),
        projects := (projects s)(p := (projects s p)\<lparr>totalExpenses :=
           totalExpenses (projects s p) + exp_amount (projectExpenses s p ! i)\<rparr>) \<rparr>"

definition claimed_stage :: "uint256 \<Rightarrow> address \<Rightarrow> state \<Rightarrow> state" where
  "claimed_stage p a s =
     s\<lparr> entered := True,
        refundClaimed := (refundClaimed s)(p := (refundClaimed s p)(a := True)) \<rparr>"

text \<open>The funded project 0 with one expense of 50 units pending.\<close>

definition expense_pending :: state where
  "expense_pending = run [tx_expense] well_funded"

text \<open>
  A second project, funded with 80 units by account 3, and two expenses of 50 units
  each pending on project 0, which holds 80 units; the Admin approves them.
\<close>

definition tx_create2 :: "uint256 \<times> call" where
  "tx_create2 = (5, Call 1 (CreateProject ''School'' ''A school'' (200 * 10 ^ 16) 30) True [])"

definition tx_pledge2 :: "uint256 \<times> call" where
  "tx_pledge2 = (5, Call 3 (Contribute 1 (80 * 10 ^ 16)) True [])"

definition two_pending :: state where
  "two_pending = run [tx_create2, tx_pledge2, tx_expense, tx_expense] well_funded"

definition tx_approve :: "uint256 \<Rightarrow> uint256 \<times> call" where
  "tx_approve i = (8, Call 1 (ApproveExpense 0 i) True [])"

text \<open>
  The storage the creator's code finds when the payout of expense 0 reaches it: the
  expense marked, the total raised, the 50 units gone from the balance.
\<close>

definition mid_payout :: state where
  "mid_payout = (approved_stage 0 0 two_pending)\<lparr>balance := balance two_pending - 50 * 10 ^ 16\<rparr>"

text \<open>
  With project 0 alone in the table, the Admin cancels id 1, which no project has yet;
  the next \<^verbatim>\<open>createProject\<close> assigns id 1; the project is funded by account 3, its
  creator submits an expense of 50 units, and the Admin completes it or approves the
  expense.
\<close>

definition tx_cancel_unborn :: "uint256 \<times> call" where
  "tx_cancel_unborn = (1, Call 1 (CancelProject 1) True [])"

definition unborn_cancelled :: state where
  "unborn_cancelled = run [tx_cancel_unborn] well_open"

definition revived :: state where
  "revived = run [tx_create2] unborn_cancelled"

definition tx_complete_revived :: "uint256 \<times> call" where
  "tx_complete_revived = (6, Call 1 (CompleteProject 1) True [])"

definition tx_expense_revived :: "uint256 \<times> call" where
  "tx_expense_revived =
     (6, Call 1 (SubmitExpense 1 ''Desks'' (50 * 10 ^ 16) Operations ''ipfs://desks'') True [])"

definition tx_approve_revived :: "uint256 \<times> call" where
  "tx_approve_revived = (8, Call 1 (ApproveExpense 1 0) True [])"

definition revived_pending :: state where
  "revived_pending = run [tx_pledge2, tx_expense_revived] revived"

text \<open>Project 0, funded and with its expense of 50 units pending, cancelled by the Admin.\<close>

definition cancelled_pending :: state where
  "cancelled_pending = run [tx_cancel] expense_pending"

section \<open>Basic facts about calls\<close>

lemma void_Inr: "void r = Inr (v, s') \<longleftrightarrow> v = Void \<and> r = Inr s'"
  by (cases r) (auto simp: void_def)

lemma approveExpense_Inr:
  assumes "approveExpense cv a p i s = Inr s'"
  obtains s2 where
    "roles s DEFAULT_ADMIN_ROLE a"
    "status (projects s p) \<noteq> Cancelled"
    "i < length (projectExpenses s p)"
    "\<not> exp_approved (projectExpenses s p ! i)"
    "totalExpenses (projects s p) + exp_amount (projectExpenses s p ! i) \<le> max_uint256"
    "cv (creator (projects s p)) (exp_amount (projectExpenses s p ! i))
        (s\<lparr> projectExpenses := (projectExpenses s)(p :=
                      (projectExpenses s p)[i := (projectExpenses s p ! i)\<lparr>exp_approved := True\<rparr>]),
            projects := (projects s)(p := (projects s p)\<lparr>totalExpenses :=
                 totalExpenses (projects s p) + exp_amount (projectExpenses s p ! i)\<rparr>) \<rparr>)
       = (True, s2)"
    "s' = emit (FundsReleased p (exp_amount (projectExpenses s2 p ! i)))
                         (emit (ExpenseApproved p i) s2)"
  using assms
  by (auto simp: approveExpense_def onlyRole_def Let_def split: if_splits prod.splits)

lemma claimRefund_Inr:
  assumes "claimRefund cv a p s = Inr s'"
  obtains s2 where
    "\<not> entered s"
    "status (projects s p) = Cancelled"
    "contributions s p a > 0"
    "\<not> refundClaimed s p a"
    "cv a (contributions s p a)
        (s\<lparr> entered := True, refundClaimed := (refundClaimed s)(p := (refundClaimed s p)(a := True)) \<rparr>)
       = (True, s2)"
    "s' = (emit (RefundClaimed p a (contributions s p a)) s2)\<lparr>entered := False\<rparr>"
  using assms
  by (auto simp: claimRefund_def nonReentrant_def Let_def split: if_splits prod.splits sum.splits)

lemma send_value_True:
  "send_value ok f to amt s = (True, s2) \<longleftrightarrow>
     amt \<le> balance s \<and> ok \<and> s2 = f (s\<lparr>balance := balance s - amt\<rparr>)"
  by (auto simp: send_value_def)

lemma exec_reenter_invariant:
  fixes P :: "state \<Rightarrow> bool"
  assumes ev: "\<And>s x. P s \<Longrightarrow> P (s\<lparr>events := x\<rparr>)"
    and bal: "\<And>s x. P s \<Longrightarrow> P (s\<lparr>balance := x\<rparr>)"
    and ent: "\<And>s x. P s \<Longrightarrow> P (s\<lparr>entered := x\<rparr>)"
    and create: "\<And>s s' a now t d g n. createProject a now t d g n s = Inr s' \<Longrightarrow> P s \<Longrightarrow> P s'"
    and contrib: "\<And>s s' a v now p. contribute a v now p s = Inr s' \<Longrightarrow> P s \<Longrightarrow> P s'"
    and submit: "\<And>s s' a now p d am c u. submitExpense a now p d am c u s = Inr s' \<Longrightarrow> P s \<Longrightarrow> P s'"
    and complete: "\<And>s s' a p. completeProject a p s = Inr s' \<Longrightarrow> P s \<Longrightarrow> P s'"
    and cancel: "\<And>s s' a p. cancelProject a p s = Inr s' \<Longrightarrow> P s \<Longrightarrow> P s'"
    and pau: "\<And>s s' a. pause a s = Inr s' \<Longrightarrow> P s \<Longrightarrow> P s'"
    and unpau: "\<And>s s' a. unpause a s = Inr s' \<Longrightarrow> P s \<Longrightarrow> P s'"
    and grant: "\<And>s s' a b. grantProjectCreatorRole a b s = Inr s' \<Longrightarrow> P s \<Longrightarrow> P s'"
    and approve: "\<And>s p i. status (projects s p) \<noteq> Cancelled \<Longrightarrow> i < length (projectExpenses s p) \<Longrightarrow>
        \<not> exp_approved (projectExpenses s p ! i) \<Longrightarrow> P s \<Longrightarrow>
        P (s\<lparr> projectExpenses := (projectExpenses s)(p :=
                      (projectExpenses s p)[i := (projectExpenses s p ! i)\<lparr>exp_approved := True\<rparr>]),
            projects := (projects s)(p := (projects s p)\<lparr>totalExpenses :=
                 totalExpenses (projects s p) + exp_amount (projectExpenses s p ! i)\<rparr>) \<rparr>)"
    and claim: "\<And>s p a. status (projects s p) = Cancelled \<Longrightarrow> P s \<Longrightarrow>
        P (s\<lparr> refundClaimed := (refundClaimed s)(p := (refundClaimed s p)(a := True)) \<rparr>)"
  shows "exec now c s = Inr (r, s') \<Longrightarrow> P s \<Longrightarrow> P s'"
    and "P s \<Longrightarrow> P (reenter now cs s)"
proof (induction now c s and now cs s arbitrary: r s' rule: exec_reenter.induct)
  case (4 now sender p i accepts nested s)
  from "4.prems"(1) have ae: "approveExpense (send_value accepts (\<lambda>s'. reenter now nested s')) sender p i s = Inr s'"
    by (simp add: void_Inr)
  from ae show ?case
  proof (rule approveExpense_Inr)
    fix s2
    assume a: "status (projects s p) \<noteq> Cancelled" "i < length (projectExpenses s p)"
      "\<not> exp_approved (projectExpenses s p ! i)"
    and sv: "send_value accepts (\<lambda>s'. reenter now nested s') (creator (projects s p)) (exp_amount (projectExpenses s p ! i))
        (s\<lparr> projectExpenses := (projectExpenses s)(p :=
                      (projectExpenses s p)[i := (projectExpenses s p ! i)\<lparr>exp_approved := True\<rparr>]),
            projects := (projects s)(p := (projects s p)\<lparr>totalExpenses :=
                 totalExpenses (projects s p) + exp_amount (projectExpenses s p ! i)\<rparr>) \<rparr>)
       = (True, s2)"
    and s': "s' = emit (FundsReleased p (exp_amount (projectExpenses s2 p ! i)))
                         (emit (ExpenseApproved p i) s2)"
    let ?s1 = "s\<lparr> projectExpenses := (projectExpenses s)(p :=
                      (projectExpenses s p)[i := (projectExpenses s p ! i)\<lparr>exp_approved := True\<rparr>]),
            projects := (projects s)(p := (projects s p)\<lparr>totalExpenses :=
                 totalExpenses (projects s p) + exp_amount (projectExpenses s p ! i)\<rparr>) \<rparr>"
    have "P ?s1" using approve [OF a "4.prems"(2)] .
    then have "P (?s1\<lparr>balance := balance ?s1 - exp_amount (projectExpenses s p ! i)\<rparr>)"
      by (rule bal)
    then have "P s2" using sv "4.IH" unfolding send_value_True by blast
    then show "P s'" unfolding s' emit_def by (intro ev)
  qed
next
  case (7 now sender p accepts nested s)
  from "7.prems"(1) have cr: "claimRefund (send_value accepts (\<lambda>s'. reenter now nested s')) sender p s = Inr s'"
    by (simp add: void_Inr)
  from cr show ?case
  proof (rule claimRefund_Inr)
    fix s2
    assume a: "status (projects s p) = Cancelled"
    and sv: "send_value accepts (\<lambda>s'. reenter now nested s') sender (contributions s p sender)
        (s\<lparr> entered := True, refundClaimed := (refundClaimed s)(p := (refundClaimed s p)(sender := True)) \<rparr>)
       = (True, s2)"
    and s': "s' = (emit (RefundClaimed p sender (contributions s p sender)) s2)\<lparr>entered := False\<rparr>"
    let ?s0 = "s\<lparr>entered := True\<rparr>"
    let ?s1 = "?s0\<lparr> refundClaimed := (refundClaimed ?s0)(p := (refundClaimed ?s0 p)(sender := True)) \<rparr>"
    have "P ?s0" using "7.prems"(2) by (rule ent)
    moreover have "status (projects ?s0 p) = Cancelled" using a by simp
    ultimately have "P ?s1" using claim by blast
    then have "P (?s1\<lparr>balance := balance ?s1 - contributions s p sender\<rparr>)"
      by (rule bal)
    then have "P s2" using sv "7.IH" unfolding send_value_True by auto
    then show "P s'" unfolding s' emit_def by (intro ev ent)
  qed
next
  case (16 now c cs s)
  show ?case
  proof (cases "exec now c s")
    case (Inl e)
    then show ?thesis using 16 by simp
  next
    case (Inr rs)
    then obtain r s1 where "exec now c s = Inr (r, s1)" by (cases rs) auto
    then show ?thesis using 16 by simp
  qed
qed (auto simp: void_Inr getProjectExpenses_def receive_def intro: create contrib submit complete cancel pau unpau grant)

text \<open>
  The same rule with the call first, for use as an elimination rule: a property of the
  storage that every function and every stage of the two paying functions keeps is kept
  by every call, whatever the recipients do.
\<close>

lemma exec_invariant:
  fixes P :: "state \<Rightarrow> bool"
  assumes "exec now c s = Inr (r, s')" and "P s"
    and "\<And>s x. P s \<Longrightarrow> P (s\<lparr>events := x\<rparr>)"
    and "\<And>s x. P s \<Longrightarrow> P (s\<lparr>balance := x\<rparr>)"
    and "\<And>s x. P s \<Longrightarrow> P (s\<lparr>entered := x\<rparr>)"
    and "\<And>s s' a now t d g n. createProject a now t d g n s = Inr s' \<Longrightarrow> P s \<Longrightarrow> P s'"
    and "\<And>s s' a v now p. contribute a v now p s = Inr s' \<Longrightarrow> P s \<Longrightarrow> P s'"
    and "\<And>s s' a now p d am c u. submitExpense a now p d am c u s = Inr s' \<Longrightarrow> P s \<Longrightarrow> P s'"
    and "\<And>s s' a p. completeProject a p s = Inr s' \<Longrightarrow> P s \<Longrightarrow> P s'"
    and "\<And>s s' a p. cancelProject a p s = Inr s' \<Longrightarrow> P s \<Longrightarrow> P s'"
    and "\<And>s s' a. pause a s = Inr s' \<Longrightarrow> P s \<Longrightarrow> P s'"
    and "\<And>s s' a. unpause a s = Inr s' \<Longrightarrow> P s \<Longrightarrow> P s'"
    and "\<And>s s' a b. grantProjectCreatorRole a b s = Inr s' \<Longrightarrow> P s \<Longrightarrow> P s'"
    and "\<And>s p i. status (projects s p) \<noteq> Cancelled \<Longrightarrow> i < length (projectExpenses s p) \<Longrightarrow>
        \<not> exp_approved (projectExpenses s p ! i) \<Longrightarrow> P s \<Longrightarrow>
        P (s\<lparr> projectExpenses := (projectExpenses s)(p :=
                      (projectExpenses s p)[i := (projectExpenses s p ! i)\<lparr>exp_approved := True\<rparr>]),
            projects := (projects s)(p := (projects s p)\<lparr>totalExpenses :=
                 totalExpenses (projects s p) + exp_amount (projectExpenses s p ! i)\<rparr>) \<rparr>)"
    and "\<And>s p a. status (projects s p) = Cancelled \<Longrightarrow> P s \<Longrightarrow>
        P (s\<lparr> refundClaimed := (refundClaimed s)(p := (refundClaimed s p)(a := True)) \<rparr>)"
  shows "P s'"
  by (rule exec_reenter_invariant(1) [where P = P, OF _ _ _ _ _ _ _ _ _ _ _ _ _ assms(1,2)])
     (fact assms)+

lemma reenter_invariant:
  fixes P :: "state \<Rightarrow> bool"
  assumes "P s"
    and "\<And>s x. P s \<Longrightarrow> P (s\<lparr>events := x\<rparr>)"
    and "\<And>s x. P s \<Longrightarrow> P (s\<lparr>balance := x\<rparr>)"
    and "\<And>s x. P s \<Longrightarrow> P (s\<lparr>entered := x\<rparr>)"
    and "\<And>s s' a now t d g n. createProject a now t d g n s = Inr s' \<Longrightarrow> P s \<Longrightarrow> P s'"
    and "\<And>s s' a v now p. contribute a v now p s = Inr s' \<Longrightarrow> P s \<Longrightarrow> P s'"
    and "\<And>s s' a now p d am c u. submitExpense a now p d am c u s = Inr s' \<Longrightarrow> P s \<Longrightarrow> P s'"
    and "\<And>s s' a p. completeProject a p s = Inr s' \<Longrightarrow> P s \<Longrightarrow> P s'"
    and "\<And>s s' a p. cancelProject a p s = Inr s' \<Longrightarrow> P s \<Longrightarrow> P s'"
    and "\<And>s s' a. pause a s = Inr s' \<Longrightarrow> P s \<Longrightarrow> P s'"
    and "\<And>s s' a. unpause a s = Inr s' \<Longrightarrow> P s \<Longrightarrow> P s'"
    and "\<And>s s' a b. grantProjectCreatorRole a b s = Inr s' \<Longrightarrow> P s \<Longrightarrow> P s'"
    and "\<And>s p i. status (projects s p) \<noteq> Cancelled \<Longrightarrow> i < length (projectExpenses s p) \<Longrightarrow>
        \<not> exp_approved (projectExpenses s p ! i) \<Longrightarrow> P s \<Longrightarrow>
        P (s\<lparr> projectExpenses := (projectExpenses s)(p :=
                      (projectExpenses s p)[i := (projectExpenses s p ! i)\<lparr>exp_approved := True\<rparr>]),
            projects := (projects s)(p := (projects s p)\<lparr>totalExpenses :=
                 totalExpenses (projects s p) + exp_amount (projectExpenses s p ! i)\<rparr>) \<rparr>)"
    and "\<And>s p a. status (projects s p) = Cancelled \<Longrightarrow> P s \<Longrightarrow>
        P (s\<lparr> refundClaimed := (refundClaimed s)(p := (refundClaimed s p)(a := True)) \<rparr>)"
  shows "P (reenter now cs s)"
  by (rule exec_reenter_invariant(2) [where P = P, OF _ _ _ _ _ _ _ _ _ _ _ _ _ assms(1)])
     (fact assms)+

lemma transact_invariant:
  assumes "\<And>r s'. exec now c s = Inr (r, s') \<Longrightarrow> P s'" and "P s"
  shows "P (snd (transact now c s))"
  using assms by (auto simp: transact_def split: sum.splits)

lemma run_invariant:
  assumes step: "\<And>now c s r s'. exec now c s = Inr (r, s') \<Longrightarrow> P s \<Longrightarrow> P s'"
  shows "P s \<Longrightarrow> P (run txs s)"
proof (induction txs arbitrary: s)
  case Nil
  then show ?case by simp
next
  case (Cons tx txs)
  obtain now c where tx: "tx = (now, c)" by (cases tx)
  have "P (snd (transact now c s))"
    using Cons.prems step by (auto intro: transact_invariant)
  then show ?case using Cons.IH tx by simp
qed

subsection \<open>Evaluating the sample ledger\<close>

lemmas eval_defs = transact_def constructor_def createProject_def contribute_def
  submitExpense_def approveExpense_def completeProject_def cancelProject_def claimRefund_def
  pause_def unpause_def grantProjectCreatorRole_def receive_def getProjectExpenses_def
  getProjectContributions_def send_value_def
  whenNotPaused_def onlyRole_def nonReentrant_def
  days_def MINIMUM_FUNDING_PERIOD_def MAXIMUM_FUNDING_PERIOD_def MINIMUM_CONTRIBUTION_def
  max_uint256_def emit_def void_def zero_project_def Let_def

lemma well_open_eval: "well_open = \<lparr>projects =
        (\<lambda>_. zero_project)
        (0 := \<lparr>title = ''Well'', description = ''A village well'',
                 creator = 1, goalAmount = 1000000000000000000,
                 currentAmount = 0, deadline = 864000, status = Active,
                 fundsReleased = False, totalExpenses = 0, createdAt = 0\<rparr>),
        projectExpenses = \<lambda>_. [], projectContributions = \<lambda>_. [],
        contributions = \<lambda>_ _. 0, refundClaimed = \<lambda>_ _. False,
        projectCount = 1, roles = \<lambda>_ a. a = 1, paused = False,
        entered = False, balance = 0,
        events =
          [ProjectCreated 0 ''Well'' 1 1000000000000000000 864000]\<rparr>"
  by (simp add: well_open_def tx_create_def eval_defs)

lemmas fun_defs = createProject_def contribute_def
  submitExpense_def completeProject_def cancelProject_def 
  pause_def unpause_def grantProjectCreatorRole_def 
  whenNotPaused_def onlyRole_def nonReentrant_def emit_def Let_def

lemma well_funded_eval:
  "well_funded = \<lparr>projects =
        (\<lambda>_. zero_project)
        (0 := \<lparr>title = ''Well'', description = ''A village well'',
                 creator = 1, goalAmount = 1000000000000000000,
                 currentAmount = 800000000000000000, deadline = 864000, status = Active,
                 fundsReleased = False, totalExpenses = 0, createdAt = 0\<rparr>),
        projectExpenses = \<lambda>_. [],
        projectContributions = (\<lambda>_. [])
          (0 := [\<lparr>contributor = 2, con_amount = 400000000000000000, con_timestamp = 5\<rparr>,
                 \<lparr>contributor = 2, con_amount = 400000000000000000, con_timestamp = 5\<rparr>]),
        contributions = (\<lambda>_ _. 0)(0 := (\<lambda>_. 0)(2 := 800000000000000000)),
        refundClaimed = \<lambda>_ _. False,
        projectCount = 1, roles = \<lambda>_ a. a = 1, paused = False,
        entered = False, balance = 800000000000000000,
        events =
          [ProjectCreated 0 ''Well'' 1 1000000000000000000 864000,
           ContributionMade 0 2 400000000000000000,
           ContributionMade 0 2 400000000000000000]\<rparr>"
  by (simp add: well_funded_def well_open_eval pledge_def eval_defs)

lemma well_cancelled_eval:
  "well_cancelled = well_funded
     \<lparr> projects := (projects well_funded)(0 := (projects well_funded 0)\<lparr>status := Cancelled\<rparr>),
       events := events well_funded @ [ProjectCancelled 0] \<rparr>"
  by (simp add: well_cancelled_def tx_cancel_def well_funded_eval eval_defs)

lemma well_refunded_eval:
  "well_refunded = well_cancelled
     \<lparr> refundClaimed := (\<lambda>_ _. False)(0 := (\<lambda>_. False)(2 := True)),
       balance := 0,
       events := events well_cancelled @ [RefundClaimed 0 2 800000000000000000] \<rparr>"
  by (simp add: well_refunded_def tx_refund_def well_cancelled_eval well_funded_eval eval_defs)

subsection \<open>Contributions stay within the goal\<close>

lemma exec_within_goal:
  "exec now c s = Inr (r, s') \<Longrightarrow> within_goal p s \<Longrightarrow> within_goal p s'"
proof (erule exec_invariant [where P = "within_goal p"], goal_cases)
  case (5 s s' a now t d g n)
  then show ?case
    by (auto simp: within_goal_def createProject_def whenNotPaused_def onlyRole_def Let_def emit_def
        split: if_splits)
next
  case (6 s s' a v now q)
  then show ?case
    by (auto simp: within_goal_def contribute_def whenNotPaused_def nonReentrant_def Let_def emit_def
        split: if_splits)
next
  case (7 s s' a now q d am c u)
  then show ?case
    by (auto simp: within_goal_def submitExpense_def whenNotPaused_def Let_def emit_def
        split: if_splits)
qed (auto simp: within_goal_def completeProject_def cancelProject_def pause_def unpause_def
      grantProjectCreatorRole_def onlyRole_def Let_def emit_def split: if_splits)

lemma contribute_over_goal:
  assumes "goalAmount (projects s p) < currentAmount (projects s p) + v"
  shows "\<exists>e. contribute a v now p s = Inl e"
  using assms
  by (auto simp: contribute_def whenNotPaused_def nonReentrant_def Let_def)

lemma contribute_Inr:
  assumes "contribute a v now p s = Inr s'"
  shows "\<not> paused s \<and> \<not> entered s \<and> creator (projects s p) \<noteq> 0 \<and> status (projects s p) = Active \<and>
     now < deadline (projects s p) \<and> MINIMUM_CONTRIBUTION \<le> v \<and>
     currentAmount (projects s p) + v \<le> goalAmount (projects s p) \<and>
     s' = s\<lparr> balance := balance s + v, 
             projects := (projects s)(p := (projects s p)\<lparr>currentAmount := currentAmount (projects s p) + v\<rparr>),
             contributions := (contributions s)(p := (contributions s p)(a := contributions s p a + v)),
             projectContributions := (projectContributions s)(p := projectContributions s p @
                   [\<lparr> contributor = a, con_amount = v, con_timestamp = now \<rparr>]),
             events := events s @ [ContributionMade p a v] \<rparr>"
  using assms
  by (auto simp: contribute_def whenNotPaused_def nonReentrant_def Let_def emit_def split: if_splits)

subsection \<open>The reentrancy lock is the same before and after a call\<close>

lemma exec_reenter_entered:
  shows "exec now c s = Inr (r, s') \<Longrightarrow> entered s' = entered s"
    and "entered (reenter now cs s) = entered s"
proof (induction now c s and now cs s arbitrary: r s' rule: exec_reenter.induct)
  case (4 now sender p i accepts nested s)
  from "4.prems" have "approveExpense (send_value accepts (\<lambda>s'. reenter now nested s')) sender p i s = Inr s'"
    by (simp add: void_Inr)
  then show ?case
    by (rule approveExpense_Inr) (auto simp: send_value_True emit_def "4.IH")
next
  case (7 now sender p accepts nested s)
  from "7.prems" have "claimRefund (send_value accepts (\<lambda>s'. reenter now nested s')) sender p s = Inr s'"
    by (simp add: void_Inr)
  then show ?case
    by (rule claimRefund_Inr) (auto simp: emit_def)
next
  case (16 now c cs s)
  show ?case
  proof (cases "exec now c s")
    case (Inl e)
    then show ?thesis using 16 by simp
  next
    case (Inr rs)
    then obtain r s1 where "exec now c s = Inr (r, s1)" by (cases rs) auto
    then show ?thesis using 16 by simp
  qed
qed (auto simp: void_Inr getProjectExpenses_def receive_def fun_defs split: if_splits)

lemma run_entered: "entered (run txs s) = entered s"
proof -
  have "entered s = b \<Longrightarrow> entered (run txs s) = b" for b
    by (rule run_invariant [where P = "\<lambda>s. entered s = b"]) (simp add: exec_reenter_entered(1))
  then show ?thesis by simp
qed

subsection \<open>A created project that has left Active stays as it is\<close>

lemma exec_settled:
  "exec now c s = Inr (r, s') \<Longrightarrow> settled p st s \<Longrightarrow> settled p st s'"
  by (erule exec_invariant [where P = "settled p st"])
     (auto simp: settled_def fun_defs split: if_splits)

lemma run_settled: "settled p st s \<Longrightarrow> settled p st (run txs s)"
  by (rule run_invariant [where P = "settled p st"]) (rule exec_settled)

lemma completeProject_Inr:
  "completeProject a p s = Inr s' \<longleftrightarrow>
     roles s DEFAULT_ADMIN_ROLE a \<and> status (projects s p) = Active \<and>
     s' = emit (ProjectCompleted p) (s\<lparr> projects := (projects s)(p := (projects s p)\<lparr>status := Completed\<rparr>) \<rparr>)"
  by (auto simp: completeProject_def onlyRole_def Let_def)

lemma cancelProject_Inr:
  "cancelProject a p s = Inr s' \<longleftrightarrow>
     roles s DEFAULT_ADMIN_ROLE a \<and> status (projects s p) = Active \<and>
     s' = emit (ProjectCancelled p) (s\<lparr> projects := (projects s)(p := (projects s p)\<lparr>status := Cancelled\<rparr>) \<rparr>)"
  by (auto simp: cancelProject_def onlyRole_def Let_def)

lemma exec_frozen:
  "exec now c s = Inr (r, s') \<Longrightarrow> frozen p es t s \<Longrightarrow> frozen p es t s'"
  by (erule exec_invariant [where P = "frozen p es t"])
     (auto simp: frozen_def fun_defs split: if_splits)

lemma run_frozen: "frozen p es t s \<Longrightarrow> frozen p es t (run txs s)"
  by (rule run_invariant [where P = "frozen p es t"]) (rule exec_frozen)

lemma approveExpense_cancelled:
  assumes "status (projects s p) = Cancelled"
  shows "approveExpense cv a p i s =
           Inl (if roles s DEFAULT_ADMIN_ROLE a then Revert ''Project is cancelled'' else PermissionDenied)"
  using assms by (simp add: approveExpense_def onlyRole_def Let_def)

lemma exec_refunded:
  "exec now c s = Inr (r, s') \<Longrightarrow> refunded p a n s \<Longrightarrow> refunded p a n s'"
  by (erule exec_invariant [where P = "refunded p a n"])
     (auto simp: refunded_def fun_defs split: if_splits)

lemma run_refunded: "refunded p a n s \<Longrightarrow> refunded p a n (run txs s)"
  by (rule run_invariant [where P = "refunded p a n"]) (rule exec_refunded)

lemma reenter_refunded: "refunded p a n s \<Longrightarrow> refunded p a n (reenter now cs s)"
  by (erule reenter_invariant [where P = "refunded p a n"])
     (auto simp: refunded_def fun_defs split: if_splits)

lemma claimRefund_repeat:
  assumes "refunded p a n s" and "0 < n" and "\<not> entered s"
  shows "claimRefund cv a p s = Inl AlreadyClaimed"
  using assms by (simp add: claimRefund_def nonReentrant_def refunded_def AlreadyClaimed_def Let_def)

subsection \<open>When creating a project and submitting an expense succeed\<close>

lemma createProject_Inr:
  "createProject a now t d g n s = Inr s' \<longleftrightarrow>
     \<not> paused s \<and> roles s PROJECT_CREATOR_ROLE a \<and> 0 < g \<and>
     MINIMUM_FUNDING_PERIOD \<le> n * days \<and> n * days \<le> MAXIMUM_FUNDING_PERIOD \<and>
     projectCount s + 1 \<le> max_uint256 \<and> now + n * days \<le> max_uint256 \<and>
     s' = s\<lparr> projectCount := projectCount s + 1,
             projects := (projects s)(projectCount s := (projects s (projectCount s))
               \<lparr> title := t, description := d, creator := a, goalAmount := g,
                 deadline := now + n * days, status := Active, createdAt := now \<rparr>),
             events := events s @ [ProjectCreated (projectCount s) t a g (now + n * days)] \<rparr>"
  by (auto simp: createProject_def whenNotPaused_def onlyRole_def Let_def emit_def
        MINIMUM_FUNDING_PERIOD_def MAXIMUM_FUNDING_PERIOD_def days_def max_uint256_def)

lemma submitExpense_Inr:
  "submitExpense a now p d am c u s = Inr s' \<longleftrightarrow>
     \<not> paused s \<and> a = creator (projects s p) \<and> status (projects s p) \<noteq> Cancelled \<and>
     totalExpenses (projects s p) + am \<le> currentAmount (projects s p) \<and>
     totalExpenses (projects s p) + am \<le> max_uint256 \<and>
     s' = s\<lparr> projectExpenses := (projectExpenses s)(p := projectExpenses s p @
                 [\<lparr> exp_description = d, exp_amount = am, exp_category = c,
                    exp_timestamp = now, exp_approved = False, exp_proofUrl = u \<rparr>]),
             events := events s @ [ExpenseSubmitted p (length (projectExpenses s p)) d am] \<rparr>"
  by (auto simp: submitExpense_def whenNotPaused_def Let_def emit_def)

lemma funding_period_days:
  "MINIMUM_FUNDING_PERIOD \<le> n * days \<and> n * days \<le> MAXIMUM_FUNDING_PERIOD \<longleftrightarrow> 1 \<le> n \<and> n \<le> 90"
  by (auto simp: MINIMUM_FUNDING_PERIOD_def MAXIMUM_FUNDING_PERIOD_def days_def)

lemma exec_projectCount_mono:
  "exec now c s = Inr (r, s') \<Longrightarrow> k \<le> projectCount s \<Longrightarrow> k \<le> projectCount s'"
  by (erule exec_invariant [where P = "\<lambda>s. k \<le> projectCount s"])
     (auto simp: fun_defs split: if_splits)

lemma run_projectCount_mono: "projectCount s \<le> projectCount (run txs s)"
  by (rule run_invariant [where P = "\<lambda>s'. projectCount s \<le> projectCount s'"])
     (auto intro: exec_projectCount_mono)

subsection \<open>The pause flag\<close>

lemma paused_outward:
  "projects_update f (paused_update g s) = paused_update g (projects_update f s)"
  "projectExpenses_update f1 (paused_update g s) = paused_update g (projectExpenses_update f1 s)"
  "refundClaimed_update f2 (paused_update g s) = paused_update g (refundClaimed_update f2 s)"
  "balance_update f3 (paused_update g s) = paused_update g (balance_update f3 s)"
  "entered_update f4 (paused_update g s) = paused_update g (entered_update f4 s)"
  "events_update f5 (paused_update g s) = paused_update g (events_update f5 s)"
  by simp_all

lemma send_value_paused:
  assumes "\<And>s1. f (s1\<lparr>paused := b\<rparr>) = (f s1)\<lparr>paused := b\<rparr>"
  shows "send_value ok f to amt (s\<lparr>paused := b\<rparr>) =
           (fst (send_value ok f to amt s), (snd (send_value ok f to amt s))\<lparr>paused := b\<rparr>)"
  by (simp add: send_value_def paused_outward assms)

lemma approveExpense_paused:
  assumes "\<And>to amt s1. cv to amt (s1\<lparr>paused := b\<rparr>) = (fst (cv to amt s1), (snd (cv to amt s1))\<lparr>paused := b\<rparr>)"
  shows "approveExpense cv a p i (s\<lparr>paused := b\<rparr>) =
           (case approveExpense cv a p i s of Inl e \<Rightarrow> Inl e | Inr s' \<Rightarrow> Inr (s'\<lparr>paused := b\<rparr>))"
  by (simp add: approveExpense_def onlyRole_def Let_def emit_def paused_outward assms split_beta)

lemma claimRefund_paused:
  assumes "\<And>to amt s1. cv to amt (s1\<lparr>paused := b\<rparr>) = (fst (cv to amt s1), (snd (cv to amt s1))\<lparr>paused := b\<rparr>)"
  shows "claimRefund cv a p (s\<lparr>paused := b\<rparr>) =
           (case claimRefund cv a p s of Inl e \<Rightarrow> Inl e | Inr s' \<Rightarrow> Inr (s'\<lparr>paused := b\<rparr>))"
  by (simp add: claimRefund_def nonReentrant_def Let_def emit_def paused_outward assms split_beta)

lemma exec_reenter_paused:
  shows "pause_exempt c \<Longrightarrow>
           exec now c (s\<lparr>paused := b\<rparr>) =
             (case exec now c s of Inl e \<Rightarrow> Inl e | Inr (r, s') \<Rightarrow> Inr (r, s'\<lparr>paused := b\<rparr>))"
    and "list_all pause_exempt cs \<Longrightarrow>
           reenter now cs (s\<lparr>paused := b\<rparr>) = (reenter now cs s)\<lparr>paused := b\<rparr>"
proof (induction now c s and now cs s rule: exec_reenter.induct)
  case (4 now sender p i accepts nested s)
  then have "reenter now nested (s1\<lparr>paused := b\<rparr>) = (reenter now nested s1)\<lparr>paused := b\<rparr>" for s1
    by simp
  then show ?case
    by (simp add: approveExpense_paused send_value_paused void_def split: sum.splits)
next
  case (7 now sender p accepts nested s)
  then have "reenter now nested (s1\<lparr>paused := b\<rparr>) = (reenter now nested s1)\<lparr>paused := b\<rparr>" for s1
    by simp
  then show ?case
    by (simp add: claimRefund_paused send_value_paused void_def split: sum.splits)
next
  case (5 now sender p accepts nested s)
  then show ?case
    by (simp add: completeProject_def onlyRole_def Let_def emit_def void_def paused_outward)
next
  case (6 now sender p accepts nested s)
  then show ?case
    by (simp add: cancelProject_def onlyRole_def Let_def emit_def void_def paused_outward)
next
  case (16 now c cs s)
  then show ?case
    by (cases "exec now c s") (auto split: sum.splits)
qed simp_all

lemma approveExpense_succeeds:
  assumes "roles s DEFAULT_ADMIN_ROLE a" and "status (projects s p) \<noteq> Cancelled"
    and "i < length (projectExpenses s p)" and "\<not> exp_approved (projectExpenses s p ! i)"
    and "totalExpenses (projects s p) + exp_amount (projectExpenses s p ! i) \<le> max_uint256"
    and "exp_amount (projectExpenses s p ! i) \<le> balance s" and ok
  shows "\<exists>s'. approveExpense (send_value ok f) a p i s = Inr s'"
  using assms by (simp add: approveExpense_def onlyRole_def Let_def send_value_def)

lemma claimRefund_succeeds:
  assumes "\<not> entered s" and "status (projects s p) = Cancelled"
    and "0 < contributions s p a" and "\<not> refundClaimed s p a"
    and "contributions s p a \<le> balance s" and ok
  shows "\<exists>s'. claimRefund (send_value ok f) a p s = Inr s'"
  using assms by (simp add: claimRefund_def nonReentrant_def Let_def send_value_def)

lemma transact_void:
  "(\<exists>s'. g s = Inr s') \<Longrightarrow> exec now c s = void (g s) \<Longrightarrow> fst (transact now c s) = Inr Void"
  by (auto simp: transact_def void_def)

lemma paused_funded_eval:
  "paused_funded = well_funded
     \<lparr> projectExpenses := (\<lambda>_. [])(0 := [\<lparr> exp_description = ''Pump'', exp_amount = 500000000000000000,
            exp_category = Infrastructure, exp_timestamp = 6, exp_approved = False,
            exp_proofUrl = ''ipfs://pump'' \<rparr>]),
       paused := True,
       events := events well_funded @ [ExpenseSubmitted 0 0 ''Pump'' 500000000000000000] \<rparr>"
  by (simp add: paused_funded_def tx_expense_def tx_pause_def well_funded_eval eval_defs)

lemma paused_cancelled_eval: "paused_cancelled = well_cancelled \<lparr> paused := True \<rparr>"
  by (simp add: paused_cancelled_def tx_pause_def well_cancelled_eval well_funded_eval eval_defs)

subsection \<open>The two paying functions, stage by stage\<close>

lemma approveExpense_staged:
  assumes "roles s DEFAULT_ADMIN_ROLE a" and "status (projects s p) \<noteq> Cancelled"
    and "i < length (projectExpenses s p)" and "\<not> exp_approved (projectExpenses s p ! i)"
    and "totalExpenses (projects s p) + exp_amount (projectExpenses s p ! i) \<le> max_uint256"
  shows "approveExpense cv a p i s =
     (case cv (creator (projects s p)) (exp_amount (projectExpenses s p ! i)) (approved_stage p i s) of
        (True, s2) \<Rightarrow> Inr (emit (FundsReleased p (exp_amount (projectExpenses s2 p ! i)))
                         (emit (ExpenseApproved p i) s2))
      | (False, s2) \<Rightarrow> Inl TransferFailed)"
  using assms
  by (simp add: approveExpense_def onlyRole_def Let_def approved_stage_def TransferFailed_def
      split: prod.splits)

lemma approved_stage_written:
  assumes "i < length (projectExpenses s p)"
  shows "exp_approved (projectExpenses (approved_stage p i s) p ! i) \<and>
         totalExpenses (projects (approved_stage p i s) p) =
           totalExpenses (projects s p) + exp_amount (projectExpenses s p ! i)"
  using assms by (simp add: approved_stage_def)

lemma claimRefund_staged:
  assumes "\<not> entered s" and "status (projects s p) = Cancelled"
    and "0 < contributions s p a" and "\<not> refundClaimed s p a"
  shows "claimRefund cv a p s =
     (case cv a (contributions s p a) (claimed_stage p a s) of
        (True, s2) \<Rightarrow> Inr ((emit (RefundClaimed p a (contributions s p a)) s2)\<lparr>entered := False\<rparr>)
      | (False, s2) \<Rightarrow> Inl TransferFailed)"
  using assms
  by (simp add: claimRefund_def nonReentrant_def Let_def claimed_stage_def TransferFailed_def
      split: prod.splits)

lemma send_value_fails:
  "balance s < amt \<or> \<not> ok \<Longrightarrow> send_value ok f to amt s = (False, s)"
  by (simp add: send_value_def)

lemma expense_pending_eval:
  "expense_pending = well_funded
     \<lparr> projectExpenses := (\<lambda>_. [])(0 := [\<lparr> exp_description = ''Pump'', exp_amount = 500000000000000000,
            exp_category = Infrastructure, exp_timestamp = 6, exp_approved = False,
            exp_proofUrl = ''ipfs://pump'' \<rparr>]),
       events := events well_funded @ [ExpenseSubmitted 0 0 ''Pump'' 500000000000000000] \<rparr>"
  by (simp add: expense_pending_def tx_expense_def well_funded_eval eval_defs)

subsection \<open>Two pending expenses\<close>

lemma two_pending_eval:
  "two_pending = well_funded
     \<lparr> projects := (projects well_funded)
         (1 := \<lparr>title = ''School'', description = ''A school'',
                creator = 1, goalAmount = 2000000000000000000,
                currentAmount = 800000000000000000, deadline = 2592005,
                status = Active, fundsReleased = False, totalExpenses = 0,
                createdAt = 5\<rparr>),
       projectExpenses := (\<lambda>_. [])
          (0 := [\<lparr>exp_description = ''Pump'', exp_amount = 500000000000000000,
                    exp_category = Infrastructure, exp_timestamp = 6,
                    exp_approved = False, exp_proofUrl = ''ipfs://pump''\<rparr>,
                 \<lparr>exp_description = ''Pump'', exp_amount = 500000000000000000,
                    exp_category = Infrastructure, exp_timestamp = 6,
                    exp_approved = False, exp_proofUrl = ''ipfs://pump''\<rparr>]),
       projectContributions := (projectContributions well_funded)
          (1 := [\<lparr>contributor = 3, con_amount = 800000000000000000, con_timestamp = 5\<rparr>]),
       contributions := (contributions well_funded)(1 := (\<lambda>_. 0)(3 := 800000000000000000)),
       projectCount := 2,
       balance := 1600000000000000000,
       events := events well_funded @
          [ProjectCreated 1 ''School'' 1 2000000000000000000 2592005,
           ContributionMade 1 3 800000000000000000,
           ExpenseSubmitted 0 0 ''Pump'' 500000000000000000,
           ExpenseSubmitted 0 1 ''Pump'' 500000000000000000] \<rparr>"
  by (simp add: two_pending_def tx_create2_def tx_pledge2_def tx_expense_def well_funded_eval eval_defs)

text \<open>
  The lock does reject a nested entry into \<^verbatim>\<open>claimRefund\<close> and (while the system is
  not paused) into \<^verbatim>\<open>contribute\<close>, the two functions that carry \<^verbatim>\<open>nonReentrant\<close>.
\<close>

lemma lock_rejects_siblings:
  assumes "entered s"
  shows "exec now (Call a (ClaimRefund p) ok cs) s = Inl ReentrancyDetected"
    and "\<not> paused s \<Longrightarrow> exec now (Call a (Contribute p v) ok cs) s = Inl ReentrancyDetected"
  using assms
  by (simp_all add: claimRefund_def contribute_def nonReentrant_def whenNotPaused_def void_def)

subsection \<open>Every slot of the project table, from the constructor on\<close>

lemma constructor_slot_ok: "slot_ok p (constructor d)"
  by (simp add: slot_ok_def constructor_def zero_project_def)

lemma exec_slot_ok:
  "exec now c s = Inr (r, s') \<Longrightarrow> slot_ok p s \<Longrightarrow> slot_ok p s'"
proof (erule exec_invariant [where P = "slot_ok p"], goal_cases)
  case (5 s s' a now t d g n)
  then show ?case
    by (auto simp: slot_ok_def createProject_Inr simp del: sum_list_eq_0_iff)
next
  case (6 s s' a v now q)
  from contribute_Inr [OF 6(2)] 6(3) show ?case
    by (auto simp: slot_ok_def simp del: sum_list_eq_0_iff)
next
  case (7 s s' a now q d am c u)
  then show ?case
    by (auto simp: slot_ok_def submitExpense_Inr simp del: sum_list_eq_0_iff)
qed (auto simp: slot_ok_def completeProject_def cancelProject_def pause_def unpause_def
      grantProjectCreatorRole_def onlyRole_def Let_def emit_def simp del: sum_list_eq_0_iff
      split: if_splits)

lemma run_slot_ok: "slot_ok p s \<Longrightarrow> slot_ok p (run txs s)"
  by (rule run_invariant [where P = "slot_ok p"]) (rule exec_slot_ok)

subsection \<open>An id cancelled before its project is created\<close>

lemma unborn_cancelled_eval:
  "unborn_cancelled = well_open
     \<lparr> projects := (projects well_open)(1 := zero_project\<lparr>status := Cancelled\<rparr>),
       events := events well_open @ [ProjectCancelled 1] \<rparr>"
  by (simp add: unborn_cancelled_def tx_cancel_unborn_def well_open_eval eval_defs)

lemma revived_eval:
  "revived = unborn_cancelled
     \<lparr> projects := (projects unborn_cancelled)
         (1 := \<lparr>title = ''School'', description = ''A school'',
                creator = 1, goalAmount = 2000000000000000000,
                currentAmount = 0, deadline = 2592005,
                status = Active, fundsReleased = False, totalExpenses = 0,
                createdAt = 5\<rparr>),
       projectCount := 2,
       events := events unborn_cancelled @
          [ProjectCreated 1 ''School'' 1 2000000000000000000 2592005] \<rparr>"
  by (simp add: revived_def tx_create2_def unborn_cancelled_eval well_open_eval eval_defs)

section \<open>The claims\<close>

text \<open>
  Claim C1. In every storage reached from the constructor by any sequence of
  transactions (sequences of \<^verbatim>\<open>contribute\<close> calls among them, with any recipients
  calling back), every project's \<open>currentAmount\<close> is the sum of its logged
  contributions and does not exceed its \<open>goalAmount\<close>; and from any storage in which
  an existing project satisfies this, it satisfies it after any sequence of
  transactions. A \<^verbatim>\<open>contribute\<close> that would take \<open>currentAmount\<close> beyond the goal
  fails and the storage is the one before the call (nothing recorded, nothing
  clamped); one that succeeds stays within the goal, adds exactly the amount sent to
  \<open>currentAmount\<close> and to the sender's aggregate, and logs it.
\<close>

theorem C1_goal_never_exceeded:
  "(currentAmount (projects (run txs (constructor d)) p)
      \<le> goalAmount (projects (run txs (constructor d)) p) \<and>
    currentAmount (projects (run txs (constructor d)) p)
      = sum_list (map con_amount (projectContributions (run txs (constructor d)) p))) \<and>
   (within_goal p s \<longrightarrow> within_goal p (run txs s)) \<and>
   (goalAmount (projects s p) < currentAmount (projects s p) + v \<longrightarrow>
      isl (fst (transact now (Call a (Contribute p v) ok cs) s)) \<and>
      snd (transact now (Call a (Contribute p v) ok cs) s) = s) \<and>
   (\<forall>s'. transact now (Call a (Contribute p v) ok cs) s = (Inr Void, s') \<longrightarrow>
      currentAmount (projects s p) + v \<le> goalAmount (projects s p) \<and>
      currentAmount (projects s' p) = currentAmount (projects s p) + v \<and>
      contributions s' p a = contributions s p a + v \<and>
      projectContributions s' p = projectContributions s p @
        [\<lparr> contributor = a, con_amount = v, con_timestamp = now \<rparr>])"
proof -
  have "slot_ok p (run txs (constructor d))"
    using constructor_slot_ok by (rule run_slot_ok)
  then have A: "currentAmount (projects (run txs (constructor d)) p)
      \<le> goalAmount (projects (run txs (constructor d)) p) \<and>
    currentAmount (projects (run txs (constructor d)) p)
      = sum_list (map con_amount (projectContributions (run txs (constructor d)) p))"
    by (simp add: slot_ok_def)
  have B: "within_goal p s \<longrightarrow> within_goal p (run txs s)"
    by (auto intro: run_invariant [where P = "within_goal p"] exec_within_goal)
  have C: "goalAmount (projects s p) < currentAmount (projects s p) + v \<longrightarrow>
      isl (fst (transact now (Call a (Contribute p v) ok cs) s)) \<and>
      snd (transact now (Call a (Contribute p v) ok cs) s) = s"
    using contribute_over_goal [of s p v a now]
    by (auto simp: transact_def void_def)
  have D: "\<forall>s'. transact now (Call a (Contribute p v) ok cs) s = (Inr Void, s') \<longrightarrow>
      currentAmount (projects s p) + v \<le> goalAmount (projects s p) \<and>
      currentAmount (projects s' p) = currentAmount (projects s p) + v \<and>
      contributions s' p a = contributions s p a + v \<and>
      projectContributions s' p = projectContributions s p @
        [\<lparr> contributor = a, con_amount = v, con_timestamp = now \<rparr>]"
    by (auto simp: transact_def void_def split: sum.splits dest!: contribute_Inr)
  from A B C D show ?thesis by blast
qed

theorem C1_goal_never_exceeded_witness:
  "currentAmount (projects (run [tx_create, pledge 40, pledge 40, pledge 30] (constructor 1)) 0)
     = 80 * 10 ^ 16 \<and>
   goalAmount (projects (run [tx_create, pledge 40, pledge 40, pledge 30] (constructor 1)) 0)
     = 100 * 10 ^ 16 \<and>
   currentAmount (projects (run [tx_create, pledge 40, pledge 40, pledge 30] (constructor 1)) 0)
     \<le> goalAmount (projects (run [tx_create, pledge 40, pledge 40, pledge 30] (constructor 1)) 0) \<and>
   within_goal 0 well_open \<and>
   within_goal 0 (run [pledge 40, pledge 40, pledge 30] well_open) \<and>
   goalAmount (projects well_funded 0) < currentAmount (projects well_funded 0) + 30 * 10 ^ 16 \<and>
   isl (fst (transact 5 (Call 2 (Contribute 0 (30 * 10 ^ 16)) True []) well_funded)) \<and>
   snd (transact 5 (Call 2 (Contribute 0 (30 * 10 ^ 16)) True []) well_funded) = well_funded \<and>
   transact 5 (Call 2 (Contribute 0 (20 * 10 ^ 16)) True []) well_funded
     = (Inr Void, run [pledge 20] well_funded) \<and>
   currentAmount (projects (run [pledge 20] well_funded) 0) = 100 * 10 ^ 16"
proof -
  have e: "currentAmount (projects (run [tx_create, pledge 40, pledge 40, pledge 30] (constructor 1)) 0)
     = 80 * 10 ^ 16"
    "goalAmount (projects (run [tx_create, pledge 40, pledge 40, pledge 30] (constructor 1)) 0)
     = 100 * 10 ^ 16"
    by (simp_all add: tx_create_def pledge_def eval_defs)
  have w: "within_goal 0 well_open"
    by (simp add: within_goal_def well_open_eval)
  have o: "goalAmount (projects well_funded 0) < currentAmount (projects well_funded 0) + 30 * 10 ^ 16"
    and c: "currentAmount (projects well_funded 0) = 80 * 10 ^ 16"
    by (simp_all add: well_funded_eval)
  have t: "transact 5 (Call 2 (Contribute 0 (20 * 10 ^ 16)) True []) well_funded
     = (Inr Void, run [pledge 20] well_funded)"
    by (simp add: pledge_def transact_def split: sum.splits)
       (simp add: well_funded_eval eval_defs)
  note T = C1_goal_never_exceeded [where p = 0 and now = 5 and a = 2 and ok = True and cs = "[]"]
  from T [where txs = "[tx_create, pledge 40, pledge 40, pledge 30]" and d = 1]
  have 1: "currentAmount (projects (run [tx_create, pledge 40, pledge 40, pledge 30] (constructor 1)) 0)
     \<le> goalAmount (projects (run [tx_create, pledge 40, pledge 40, pledge 30] (constructor 1)) 0)"
    by blast
  from T [where txs = "[pledge 40, pledge 40, pledge 30]" and s = well_open] w
  have 2: "within_goal 0 (run [pledge 40, pledge 40, pledge 30] well_open)"
    by blast
  from T [where s = well_funded and v = "30 * 10 ^ 16"] o
  have 3: "isl (fst (transact 5 (Call 2 (Contribute 0 (30 * 10 ^ 16)) True []) well_funded))"
    and 4: "snd (transact 5 (Call 2 (Contribute 0 (30 * 10 ^ 16)) True []) well_funded) = well_funded"
    by blast+
  from T [where s = well_funded and v = "20 * 10 ^ 16"] t c
  have 5: "currentAmount (projects (run [pledge 20] well_funded) 0) = 100 * 10 ^ 16"
    by simp
  from e 1 w 2 o 3 4 t 5 show ?thesis by simp
qed

text \<open>
  Claim C2 does not hold of the code. \<^verbatim>\<open>submitExpense\<close> checks the amount against
  the approved total only, and \<^verbatim>\<open>approveExpense\<close> checks nothing of the kind: with
  two expenses of 50 units pending on a project that holds 80, both approvals succeed
  (the second is paid from what project 1 holds) and \<open>totalExpenses\<close> is 100 units
  against a \<open>currentAmount\<close> of 80.
\<close>

theorem C2_pending_expenses_overdraw:
  "fst (transact 8 (Call 1 (ApproveExpense 0 0) True []) two_pending) = Inr Void \<and>
   fst (transact 8 (Call 1 (ApproveExpense 0 1) True []) (run [tx_approve 0] two_pending)) = Inr Void \<and>
   currentAmount (projects (run [tx_approve 0, tx_approve 1] two_pending) 0) = 80 * 10 ^ 16 \<and>
   totalExpenses (projects (run [tx_approve 0, tx_approve 1] two_pending) 0) = 100 * 10 ^ 16 \<and>
   \<not> totalExpenses (projects (run [tx_approve 0, tx_approve 1] two_pending) 0)
        \<le> currentAmount (projects (run [tx_approve 0, tx_approve 1] two_pending) 0)"
  by (simp add: tx_approve_def two_pending_eval well_funded_eval eval_defs)

text \<open>
  Claim C3 does not hold of the code. \<^verbatim>\<open>approveExpense\<close> carries no
  \<^verbatim>\<open>nonReentrant\<close>: it neither takes the lock nor looks at it. While the Admin's
  approval of expense 0 is paying the creator, the creator (who, as deployer, is Admin
  too) calls back \<^verbatim>\<open>approveExpense\<close> for expense 1 and then \<^verbatim>\<open>contribute\<close>. The
  outer call returns what these nested calls left; the lock is not set in the storage
  they find; each of them succeeds there, and their events come before the outer
  call's. Nothing fails with \<open>ReentrancyDetected\<close>.
\<close>

theorem C3_approveExpense_reentered:
  "exec 8 (Call 1 (ApproveExpense 0 0) True
             [Call 1 (ApproveExpense 0 1) True [], Call 1 (Contribute 0 (10 * 10 ^ 16)) True []])
        two_pending =
     Inr (Void, emit (FundsReleased 0 (50 * 10 ^ 16)) (emit (ExpenseApproved 0 0)
       (reenter 8 [Call 1 (ApproveExpense 0 1) True [], Call 1 (Contribute 0 (10 * 10 ^ 16)) True []]
          mid_payout))) \<and>
   \<not> entered mid_payout \<and>
   fst (transact 8 (Call 1 (ApproveExpense 0 1) True []) mid_payout) = Inr Void \<and>
   fst (transact 8 (Call 1 (Contribute 0 (10 * 10 ^ 16)) True []) mid_payout) = Inr Void \<and>
   events (reenter 8 [Call 1 (ApproveExpense 0 1) True [], Call 1 (Contribute 0 (10 * 10 ^ 16)) True []]
             mid_payout) =
     events two_pending @
       [ExpenseApproved 0 1, FundsReleased 0 (50 * 10 ^ 16), ContributionMade 0 1 (10 * 10 ^ 16)]"
  by (simp add: mid_payout_def approved_stage_def two_pending_eval well_funded_eval eval_defs)

text \<open>
  Claim C4 does not hold of the code. \<^verbatim>\<open>completeProject\<close> and \<^verbatim>\<open>cancelProject\<close> do
  succeed only from \<open>Active\<close>, and a project whose id is below the counter keeps a
  status other than \<open>Active\<close> for good (\<open>run_settled\<close>). But neither function checks
  that the project exists, as \<^verbatim>\<open>contribute\<close> does, and a slot never written reads as
  \<open>Active\<close>: with one project in the table the Admin's \<^verbatim>\<open>cancelProject\<close> of id 1
  succeeds and leaves the slot \<open>Cancelled\<close>; the next \<^verbatim>\<open>createProject\<close> assigns id 1
  and writes \<open>Active\<close> over it; \<^verbatim>\<open>completeProject\<close> of id 1 then succeeds. The status
  of id 1 goes from \<open>Cancelled\<close> to \<open>Active\<close> to \<open>Completed\<close>.
\<close>

theorem C4_cancelled_then_active_then_completed:
  "projectCount well_open = 1 \<and>
   transact 1 (Call 1 (CancelProject 1) True []) well_open = (Inr Void, unborn_cancelled) \<and>
   status (projects unborn_cancelled 1) = Cancelled \<and>
   transact 5 (Call 1 (CreateProject ''School'' ''A school'' (200 * 10 ^ 16) 30) True [])
      unborn_cancelled = (Inr Void, revived) \<and>
   creator (projects revived 1) = 1 \<and>
   status (projects revived 1) = Active \<and>
   fst (transact 6 (Call 1 (CompleteProject 1) True []) revived) = Inr Void \<and>
   status (projects (run [tx_complete_revived] revived) 1) = Completed \<and>
   status (projects (run [tx_cancel_unborn, tx_create2, tx_complete_revived] well_open) 1) = Completed"
  by (simp add: tx_complete_revived_def revived_eval unborn_cancelled_eval well_open_eval
      tx_cancel_unborn_def tx_create2_def eval_defs)

text \<open>
  Claim C5. A \<^verbatim>\<open>claimRefund\<close> that succeeds was made on a cancelled project, by a
  caller with a nonzero cumulative contribution who had not claimed, to a recipient that
  accepts, with the contract holding at least that amount. The storage it leaves is the
  one before with the claim marked, the balance reduced by exactly the cumulative
  contribution, then whatever the recipient's code did, and the \<open>RefundClaimed\<close> event.
  For a project that exists the claim stays marked, and every later claim by the same
  contributor on the same project, after any sequence of transactions, fails with
  \<open>AlreadyClaimed\<close>.
\<close>

theorem C5_refund_once:
  assumes "transact now (Call a (ClaimRefund p) ok cs) s = (Inr r, s')"
  shows "status (projects s p) = Cancelled \<and> 0 < contributions s p a \<and> \<not> refundClaimed s p a \<and>
         ok \<and> contributions s p a \<le> balance s \<and>
         s' = (emit (RefundClaimed p a (contributions s p a))
                (reenter now cs
                  (s\<lparr> entered := True,
                      refundClaimed := (refundClaimed s)(p := (refundClaimed s p)(a := True)),
                      balance := balance s - contributions s p a \<rparr>)))\<lparr>entered := False\<rparr> \<and>
         (p < projectCount s \<longrightarrow>
            refundClaimed s' p a \<and>
            (\<forall>txs now' ok' cs'.
               transact now' (Call a (ClaimRefund p) ok' cs') (run txs s')
                 = (Inl AlreadyClaimed, run txs s')))"
proof -
  from assms have cr: "claimRefund (send_value ok (\<lambda>s'. reenter now cs s')) a p s = Inr s'"
    by (auto simp: transact_def void_def split: sum.splits)
  from cr show ?thesis
  proof (rule claimRefund_Inr)
    fix s2
    let ?n = "contributions s p a"
    let ?s1 = "s\<lparr> entered := True, refundClaimed := (refundClaimed s)(p := (refundClaimed s p)(a := True)) \<rparr>"
    assume ne: "\<not> entered s" and st: "status (projects s p) = Cancelled" and pos: "0 < ?n"
      and nc: "\<not> refundClaimed s p a"
      and sv: "send_value ok (\<lambda>s'. reenter now cs s') a ?n ?s1 = (True, s2)"
      and s': "s' = (emit (RefundClaimed p a ?n) s2)\<lparr>entered := False\<rparr>"
    from sv have ok: ok and bal: "?n \<le> balance s"
      and s2: "s2 = reenter now cs (?s1\<lparr>balance := balance ?s1 - ?n\<rparr>)"
      by (simp_all add: send_value_True)
    have shape: "s' = (emit (RefundClaimed p a ?n)
                (reenter now cs
                  (s\<lparr> entered := True,
                      refundClaimed := (refundClaimed s)(p := (refundClaimed s p)(a := True)),
                      balance := balance s - ?n \<rparr>)))\<lparr>entered := False\<rparr>"
      unfolding s' s2 by simp
    have later: "refundClaimed s' p a \<and>
            (\<forall>txs now' ok' cs'.
               transact now' (Call a (ClaimRefund p) ok' cs') (run txs s')
                 = (Inl AlreadyClaimed, run txs s'))" if ex: "p < projectCount s"
    proof -
      have "refunded p a ?n (?s1\<lparr>balance := balance ?s1 - ?n\<rparr>)"
        using ex st by (simp add: refunded_def)
      then have "refunded p a ?n s2" unfolding s2 by (rule reenter_refunded)
      then have r': "refunded p a ?n s'" unfolding s' by (simp add: refunded_def emit_def)
      have e': "\<not> entered s'" unfolding s' by simp
      have "transact now' (Call a (ClaimRefund p) ok' cs') (run txs s')
                 = (Inl AlreadyClaimed, run txs s')" for txs now' ok' cs'
      proof -
        have "refunded p a ?n (run txs s')" using r' by (rule run_refunded)
        moreover have "\<not> entered (run txs s')" using e' by (simp add: run_entered)
        ultimately have "claimRefund (send_value ok' (\<lambda>s'. reenter now' cs' s')) a p (run txs s') = Inl AlreadyClaimed"
          using pos by (intro claimRefund_repeat)
        then show ?thesis by (simp add: transact_def void_def)
      qed
      with r' show ?thesis by (simp add: refunded_def)
    qed
    from st pos nc ok bal shape later show ?thesis by blast
  qed
qed

theorem C5_refund_once_witness:
  "transact 7 (Call 2 (ClaimRefund 0) True []) well_cancelled = (Inr Void, well_refunded) \<and>
   0 < projectCount well_cancelled \<and>
   status (projects well_cancelled 0) = Cancelled \<and>
   contributions well_cancelled 0 2 = 80 * 10 ^ 16 \<and>
   balance well_cancelled = 80 * 10 ^ 16 \<and>
   balance well_refunded = 0 \<and>
   refundClaimed well_refunded 0 2 \<and>
   transact 8 (Call 2 (ClaimRefund 0) True []) (run [pledge 10] well_refunded) =
     (Inl AlreadyClaimed, run [pledge 10] well_refunded)"
proof -
  have t: "transact 7 (Call 2 (ClaimRefund 0) True []) well_cancelled = (Inr Void, well_refunded)"
    by (simp add: well_refunded_def tx_refund_def well_cancelled_eval well_funded_eval eval_defs)
  have h: "0 < projectCount well_cancelled"
    and c: "contributions well_cancelled 0 2 = 80 * 10 ^ 16"
    and b: "balance well_cancelled = 80 * 10 ^ 16"
    and b': "balance well_refunded = 0"
    by (simp_all add: well_refunded_eval well_cancelled_eval well_funded_eval)
  from C5_refund_once [OF t] h
  show ?thesis using t c b b' by simp
qed

text \<open>
  Claim C6. A call that fails leaves the storage exactly as it was. In
  \<^verbatim>\<open>approveExpense\<close>, once the checks have passed, the outbound call is issued on the
  storage in which the expense is already marked approved and \<open>totalExpenses\<close> already
  includes its amount; in \<^verbatim>\<open>claimRefund\<close> it is issued on the storage in which the
  claim is already marked. Whatever the outbound call does, the function returns what
  the call left (plus the events) when the call succeeds and fails with
  \<open>TransferFailed\<close> when it does not; in particular, when the contract holds too
  little or the recipient refuses, the transaction fails with \<open>TransferFailed\<close> and the
  storage is the one before the call, the earlier writes undone.
\<close>

theorem C6_checks_then_effects_then_transfer:
  "(isl (fst (transact now c s)) \<longrightarrow> snd (transact now c s) = s) \<and>
   (roles s DEFAULT_ADMIN_ROLE a \<and> status (projects s p) \<noteq> Cancelled \<and>
    i < length (projectExpenses s p) \<and> \<not> exp_approved (projectExpenses s p ! i) \<and>
    totalExpenses (projects s p) + exp_amount (projectExpenses s p ! i) \<le> max_uint256 \<longrightarrow>
      exp_approved (projectExpenses (approved_stage p i s) p ! i) \<and>
      totalExpenses (projects (approved_stage p i s) p) =
        totalExpenses (projects s p) + exp_amount (projectExpenses s p ! i) \<and>
      approveExpense cv a p i s =
        (case cv (creator (projects s p)) (exp_amount (projectExpenses s p ! i))
                (approved_stage p i s) of
           (True, s2) \<Rightarrow> Inr (emit (FundsReleased p (exp_amount (projectExpenses s2 p ! i)))
                            (emit (ExpenseApproved p i) s2))
         | (False, s2) \<Rightarrow> Inl TransferFailed) \<and>
      (balance s < exp_amount (projectExpenses s p ! i) \<or> \<not> ok \<longrightarrow>
         transact now (Call a (ApproveExpense p i) ok cs) s = (Inl TransferFailed, s))) \<and>
   (\<not> entered s \<and> status (projects s p) = Cancelled \<and> 0 < contributions s p a \<and>
    \<not> refundClaimed s p a \<longrightarrow>
      refundClaimed (claimed_stage p a s) p a \<and>
      claimRefund cv a p s =
        (case cv a (contributions s p a) (claimed_stage p a s) of
           (True, s2) \<Rightarrow> Inr ((emit (RefundClaimed p a (contributions s p a)) s2)
                                \<lparr>entered := False\<rparr>)
         | (False, s2) \<Rightarrow> Inl TransferFailed) \<and>
      (balance s < contributions s p a \<or> \<not> ok \<longrightarrow>
         transact now (Call a (ClaimRefund p) ok cs) s = (Inl TransferFailed, s)))"
proof -
  have A: "isl (fst (transact now c s)) \<longrightarrow> snd (transact now c s) = s"
    by (auto simp: transact_def split: sum.splits)
  have B: "exp_approved (projectExpenses (approved_stage p i s) p ! i) \<and>
      totalExpenses (projects (approved_stage p i s) p) =
        totalExpenses (projects s p) + exp_amount (projectExpenses s p ! i) \<and>
      approveExpense cv a p i s =
        (case cv (creator (projects s p)) (exp_amount (projectExpenses s p ! i))
                (approved_stage p i s) of
           (True, s2) \<Rightarrow> Inr (emit (FundsReleased p (exp_amount (projectExpenses s2 p ! i)))
                            (emit (ExpenseApproved p i) s2))
         | (False, s2) \<Rightarrow> Inl TransferFailed) \<and>
      (balance s < exp_amount (projectExpenses s p ! i) \<or> \<not> ok \<longrightarrow>
         transact now (Call a (ApproveExpense p i) ok cs) s = (Inl TransferFailed, s))"
    if h: "roles s DEFAULT_ADMIN_ROLE a" "status (projects s p) \<noteq> Cancelled"
      "i < length (projectExpenses s p)" "\<not> exp_approved (projectExpenses s p ! i)"
      "totalExpenses (projects s p) + exp_amount (projectExpenses s p ! i) \<le> max_uint256"
  proof -
    have "transact now (Call a (ApproveExpense p i) ok cs) s = (Inl TransferFailed, s)"
      if f: "balance s < exp_amount (projectExpenses s p ! i) \<or> \<not> ok"
    proof -
      have "balance (approved_stage p i s) = balance s" by (simp add: approved_stage_def)
      with f have "send_value ok (\<lambda>s'. reenter now cs s') (creator (projects s p))
               (exp_amount (projectExpenses s p ! i)) (approved_stage p i s)
             = (False, approved_stage p i s)"
        by (intro send_value_fails) simp
      then show ?thesis
        by (simp add: transact_def void_def approveExpense_staged [OF h])
    qed
    with approved_stage_written [OF h(3)] approveExpense_staged [OF h, of cv]
    show ?thesis by blast
  qed
  have C: "refundClaimed (claimed_stage p a s) p a \<and>
      claimRefund cv a p s =
        (case cv a (contributions s p a) (claimed_stage p a s) of
           (True, s2) \<Rightarrow> Inr ((emit (RefundClaimed p a (contributions s p a)) s2)
                                \<lparr>entered := False\<rparr>)
         | (False, s2) \<Rightarrow> Inl TransferFailed) \<and>
      (balance s < contributions s p a \<or> \<not> ok \<longrightarrow>
         transact now (Call a (ClaimRefund p) ok cs) s = (Inl TransferFailed, s))"
    if h: "\<not> entered s" "status (projects s p) = Cancelled" "0 < contributions s p a"
      "\<not> refundClaimed s p a"
  proof -
    have "transact now (Call a (ClaimRefund p) ok cs) s = (Inl TransferFailed, s)"
      if f: "balance s < contributions s p a \<or> \<not> ok"
    proof -
      have "balance (claimed_stage p a s) = balance s" by (simp add: claimed_stage_def)
      with f have "send_value ok (\<lambda>s'. reenter now cs s') a (contributions s p a) (claimed_stage p a s)
             = (False, claimed_stage p a s)"
        by (intro send_value_fails) simp
      then show ?thesis
        by (simp add: transact_def void_def claimRefund_staged [OF h])
    qed
    moreover have "refundClaimed (claimed_stage p a s) p a" by (simp add: claimed_stage_def)
    ultimately show ?thesis using claimRefund_staged [OF h, of cv] by blast
  qed
  from A B C show ?thesis by blast
qed

theorem C6_checks_then_effects_then_transfer_witness:
  "roles expense_pending DEFAULT_ADMIN_ROLE 1 \<and>
   status (projects expense_pending 0) \<noteq> Cancelled \<and>
   0 < length (projectExpenses expense_pending 0) \<and>
   \<not> exp_approved (projectExpenses expense_pending 0 ! 0) \<and>
   exp_approved (projectExpenses (approved_stage 0 0 expense_pending) 0 ! 0) \<and>
   totalExpenses (projects (approved_stage 0 0 expense_pending) 0) = 50 * 10 ^ 16 \<and>
   transact 7 (Call 1 (ApproveExpense 0 0) False []) expense_pending
     = (Inl TransferFailed, expense_pending) \<and>
   \<not> entered well_cancelled \<and> status (projects well_cancelled 0) = Cancelled \<and>
   0 < contributions well_cancelled 0 2 \<and> \<not> refundClaimed well_cancelled 0 2 \<and>
   refundClaimed (claimed_stage 0 2 well_cancelled) 0 2 \<and>
   transact 7 (Call 2 (ClaimRefund 0) False []) well_cancelled
     = (Inl TransferFailed, well_cancelled) \<and>
   isl (fst (transact 7 (Call 2 (ClaimRefund 0) True []) expense_pending)) \<and>
   snd (transact 7 (Call 2 (ClaimRefund 0) True []) expense_pending) = expense_pending"
proof -
  have e: "roles expense_pending DEFAULT_ADMIN_ROLE 1"
    "status (projects expense_pending 0) \<noteq> Cancelled"
    "0 < length (projectExpenses expense_pending 0)"
    "\<not> exp_approved (projectExpenses expense_pending 0 ! 0)"
    "totalExpenses (projects expense_pending 0) + exp_amount (projectExpenses expense_pending 0 ! 0)
       \<le> max_uint256"
    and t: "totalExpenses (projects expense_pending 0) + exp_amount (projectExpenses expense_pending 0 ! 0)
       = 50 * 10 ^ 16"
    by (simp_all add: expense_pending_eval well_funded_eval max_uint256_def)
  have c: "\<not> entered well_cancelled" "status (projects well_cancelled 0) = Cancelled"
    "0 < contributions well_cancelled 0 2" "\<not> refundClaimed well_cancelled 0 2"
    by (simp_all add: well_cancelled_eval well_funded_eval)
  have f: "isl (fst (transact 7 (Call 2 (ClaimRefund 0) True []) expense_pending))"
    by (simp add: transact_def void_def claimRefund_def nonReentrant_def Let_def
        expense_pending_eval well_funded_eval)
  note T = C6_checks_then_effects_then_transfer [where now = 7 and p = 0 and i = 0 and ok = False
      and cs = "[]"]
  from T [where s = expense_pending and a = 1] e t
  have 1: "exp_approved (projectExpenses (approved_stage 0 0 expense_pending) 0 ! 0)"
    and 2: "totalExpenses (projects (approved_stage 0 0 expense_pending) 0) = 50 * 10 ^ 16"
    and 3: "transact 7 (Call 1 (ApproveExpense 0 0) False []) expense_pending
     = (Inl TransferFailed, expense_pending)"
    by simp_all
  from T [where s = well_cancelled and a = 2] c
  have 4: "refundClaimed (claimed_stage 0 2 well_cancelled) 0 2"
    and 5: "transact 7 (Call 2 (ClaimRefund 0) False []) well_cancelled
     = (Inl TransferFailed, well_cancelled)"
    by simp_all
  from T [where s = expense_pending and c = "Call 2 (ClaimRefund 0) True []"] f
  have 6: "snd (transact 7 (Call 2 (ClaimRefund 0) True []) expense_pending) = expense_pending"
    by blast
  from e(1-4) c f 1 2 3 4 5 6 show ?thesis by simp
qed

text \<open>
  Claim C7. While the system is paused, \<^verbatim>\<open>createProject\<close>, \<^verbatim>\<open>contribute\<close> and
  \<^verbatim>\<open>submitExpense\<close> fail with \<open>SystemPaused\<close> and the storage is the one before the
  call. The other four functions do not look at the pause flag: a call of
  \<^verbatim>\<open>approveExpense\<close>, \<^verbatim>\<open>claimRefund\<close>, \<^verbatim>\<open>completeProject\<close> or \<^verbatim>\<open>cancelProject\<close>
  (whose recipient, if it calls back, calls those four) has the same outcome and
  leaves the same storage whatever the flag is, and each succeeds whenever its own
  preconditions hold, paused or not: Admin and \<open>Active\<close> for completing and
  cancelling; Admin, a project that is not cancelled, an existing unapproved expense
  and a transfer that goes through for approving; a cancelled project, a nonzero
  contribution not yet claimed, the lock free and a transfer that goes through for
  the refund.
\<close>

theorem C7_pause_gate:
  "(paused s \<longrightarrow>
      transact now (Call a (CreateProject t d g n) ok cs) s = (Inl SystemPaused, s) \<and>
      transact now (Call a (Contribute p v) ok cs) s = (Inl SystemPaused, s) \<and>
      transact now (Call a (SubmitExpense p d' am c u) ok cs) s = (Inl SystemPaused, s)) \<and>
   (pause_exempt c' \<longrightarrow>
      transact now c' (s\<lparr>paused := b\<rparr>) =
        (fst (transact now c' s), (snd (transact now c' s))\<lparr>paused := b\<rparr>)) \<and>
   (roles s DEFAULT_ADMIN_ROLE a \<and> status (projects s p) = Active \<longrightarrow>
      fst (transact now (Call a (CompleteProject p) ok cs) s) = Inr Void \<and>
      fst (transact now (Call a (CancelProject p) ok cs) s) = Inr Void) \<and>
   (roles s DEFAULT_ADMIN_ROLE a \<and> status (projects s p) \<noteq> Cancelled \<and>
    i < length (projectExpenses s p) \<and> \<not> exp_approved (projectExpenses s p ! i) \<and>
    totalExpenses (projects s p) + exp_amount (projectExpenses s p ! i) \<le> max_uint256 \<and>
    exp_amount (projectExpenses s p ! i) \<le> balance s \<and> ok \<longrightarrow>
      fst (transact now (Call a (ApproveExpense p i) ok cs) s) = Inr Void) \<and>
   (\<not> entered s \<and> status (projects s p) = Cancelled \<and> 0 < contributions s p a \<and>
    \<not> refundClaimed s p a \<and> contributions s p a \<le> balance s \<and> ok \<longrightarrow>
      fst (transact now (Call a (ClaimRefund p) ok cs) s) = Inr Void)"
proof -
  have A: "paused s \<longrightarrow>
      transact now (Call a (CreateProject t d g n) ok cs) s = (Inl SystemPaused, s) \<and>
      transact now (Call a (Contribute p v) ok cs) s = (Inl SystemPaused, s) \<and>
      transact now (Call a (SubmitExpense p d' am c u) ok cs) s = (Inl SystemPaused, s)"
    by (simp add: transact_def void_def createProject_def contribute_def submitExpense_def
        whenNotPaused_def)
  have B: "pause_exempt c' \<longrightarrow>
      transact now c' (s\<lparr>paused := b\<rparr>) =
        (fst (transact now c' s), (snd (transact now c' s))\<lparr>paused := b\<rparr>)"
    by (auto simp: transact_def exec_reenter_paused(1) split: sum.splits)
  have C: "roles s DEFAULT_ADMIN_ROLE a \<and> status (projects s p) = Active \<longrightarrow>
      fst (transact now (Call a (CompleteProject p) ok cs) s) = Inr Void \<and>
      fst (transact now (Call a (CancelProject p) ok cs) s) = Inr Void"
    by (simp add: transact_def void_def completeProject_def cancelProject_def onlyRole_def Let_def)
  have D: "roles s DEFAULT_ADMIN_ROLE a \<and> status (projects s p) \<noteq> Cancelled \<and>
    i < length (projectExpenses s p) \<and> \<not> exp_approved (projectExpenses s p ! i) \<and>
    totalExpenses (projects s p) + exp_amount (projectExpenses s p ! i) \<le> max_uint256 \<and>
    exp_amount (projectExpenses s p ! i) \<le> balance s \<and> ok \<longrightarrow>
      fst (transact now (Call a (ApproveExpense p i) ok cs) s) = Inr Void"
    using approveExpense_succeeds [of s a p i ok "\<lambda>s'. reenter now cs s'"]
    by (auto intro!: transact_void [where g = "approveExpense (send_value ok (\<lambda>s'. reenter now cs s')) a p i"])
  have E: "\<not> entered s \<and> status (projects s p) = Cancelled \<and> 0 < contributions s p a \<and>
    \<not> refundClaimed s p a \<and> contributions s p a \<le> balance s \<and> ok \<longrightarrow>
      fst (transact now (Call a (ClaimRefund p) ok cs) s) = Inr Void"
    using claimRefund_succeeds [of s p a ok "\<lambda>s'. reenter now cs s'"]
    by (auto intro!: transact_void [where g = "claimRefund (send_value ok (\<lambda>s'. reenter now cs s')) a p"])
  from A B C D E show ?thesis by blast
qed

theorem C7_pause_gate_witness:
  "paused paused_funded \<and>
   transact 7 (Call 1 (CreateProject ''School'' ''A school'' (200 * 10 ^ 16) 30) True []) paused_funded
     = (Inl SystemPaused, paused_funded) \<and>
   transact 7 (Call 2 (Contribute 0 (10 * 10 ^ 16)) True []) paused_funded
     = (Inl SystemPaused, paused_funded) \<and>
   transact 7 (Call 1 (SubmitExpense 0 ''Pipes'' (10 * 10 ^ 16) Infrastructure ''ipfs://pipes'') True [])
     paused_funded = (Inl SystemPaused, paused_funded) \<and>
   fst (transact 7 (Call 1 (CompleteProject 0) True []) paused_funded) = Inr Void \<and>
   fst (transact 7 (Call 1 (CancelProject 0) True []) paused_funded) = Inr Void \<and>
   fst (transact 7 (Call 1 (ApproveExpense 0 0) True []) paused_funded) = Inr Void \<and>
   paused paused_cancelled \<and>
   fst (transact 7 (Call 2 (ClaimRefund 0) True []) paused_cancelled) = Inr Void \<and>
   pause_exempt (Call 2 (ClaimRefund 0) True [Call 1 (CompleteProject 0) True []]) \<and>
   transact 7 (Call 2 (ClaimRefund 0) True [Call 1 (CompleteProject 0) True []])
      (well_cancelled\<lparr>paused := True\<rparr>) =
     (fst (transact 7 (Call 2 (ClaimRefund 0) True [Call 1 (CompleteProject 0) True []]) well_cancelled),
      (snd (transact 7 (Call 2 (ClaimRefund 0) True [Call 1 (CompleteProject 0) True []]) well_cancelled))
        \<lparr>paused := True\<rparr>)"
proof -
  have f: "paused paused_funded" "roles paused_funded DEFAULT_ADMIN_ROLE 1"
    "status (projects paused_funded 0) = Active" "status (projects paused_funded 0) \<noteq> Cancelled"
    "0 < length (projectExpenses paused_funded 0)"
    "\<not> exp_approved (projectExpenses paused_funded 0 ! 0)"
    "totalExpenses (projects paused_funded 0) + exp_amount (projectExpenses paused_funded 0 ! 0)
       \<le> max_uint256"
    "exp_amount (projectExpenses paused_funded 0 ! 0) \<le> balance paused_funded"
    by (simp_all add: paused_funded_eval well_funded_eval max_uint256_def)
  have c: "paused paused_cancelled" "\<not> entered paused_cancelled"
    "status (projects paused_cancelled 0) = Cancelled" "0 < contributions paused_cancelled 0 2"
    "\<not> refundClaimed paused_cancelled 0 2"
    "contributions paused_cancelled 0 2 \<le> balance paused_cancelled"
    by (simp_all add: paused_cancelled_eval well_cancelled_eval well_funded_eval)
  have e: "pause_exempt (Call 2 (ClaimRefund 0) True [Call 1 (CompleteProject 0) True []])"
    by simp
  note T = C7_pause_gate [where now = 7 and ok = True and cs = "[]" and p = 0 and i = 0]
  from T [where s = paused_funded and a = 1 and t = "''School''" and d = "''A school''"
        and g = "200 * 10 ^ 16" and n = 30 and d' = "''Pipes''" and am = "10 * 10 ^ 16"
        and c = Infrastructure and u = "''ipfs://pipes''"] f
  have 1: "transact 7 (Call 1 (CreateProject ''School'' ''A school'' (200 * 10 ^ 16) 30) True []) paused_funded
     = (Inl SystemPaused, paused_funded)"
    and 2: "transact 7 (Call 1 (SubmitExpense 0 ''Pipes'' (10 * 10 ^ 16) Infrastructure ''ipfs://pipes'') True [])
     paused_funded = (Inl SystemPaused, paused_funded)"
    and 3: "fst (transact 7 (Call 1 (CompleteProject 0) True []) paused_funded) = Inr Void"
    and 4: "fst (transact 7 (Call 1 (CancelProject 0) True []) paused_funded) = Inr Void"
    and 5: "fst (transact 7 (Call 1 (ApproveExpense 0 0) True []) paused_funded) = Inr Void"
    by blast+
  from T [where s = paused_funded and a = 2 and v = "10 * 10 ^ 16"] f
  have 6: "transact 7 (Call 2 (Contribute 0 (10 * 10 ^ 16)) True []) paused_funded
     = (Inl SystemPaused, paused_funded)"
    by blast
  from T [where s = paused_cancelled and a = 2] c
  have 7: "fst (transact 7 (Call 2 (ClaimRefund 0) True []) paused_cancelled) = Inr Void"
    by blast
  from T [where s = well_cancelled and b = True
        and c' = "Call 2 (ClaimRefund 0) True [Call 1 (CompleteProject 0) True []]"] e
  have 8: "transact 7 (Call 2 (ClaimRefund 0) True [Call 1 (CompleteProject 0) True []])
      (well_cancelled\<lparr>paused := True\<rparr>) =
     (fst (transact 7 (Call 2 (ClaimRefund 0) True [Call 1 (CompleteProject 0) True []]) well_cancelled),
      (snd (transact 7 (Call 2 (ClaimRefund 0) True [Call 1 (CompleteProject 0) True []]) well_cancelled))
        \<lparr>paused := True\<rparr>)"
    by blast
  from f(1) c(1) e 1 2 3 4 5 6 7 8 show ?thesis by blast
qed

text \<open>
  Claim C8, as stated, fails: valid arguments are not enough for \<^verbatim>\<open>createProject\<close>
  to succeed. With a goal of 200 units and 30 days, the call fails with
  \<open>SystemPaused\<close> while the system is paused, and with \<open>PermissionDenied\<close> for a
  caller (account 2) who does not hold the ProjectCreator role.
\<close>

theorem C8_gated_createProject_counterexample:
  "\<not> (\<forall>s now a t d g n ok cs.
        fst (transact now (Call a (CreateProject t d g n) ok cs) s) = Inr Void \<longleftrightarrow>
        0 < g \<and> MINIMUM_FUNDING_PERIOD \<le> n * days \<and> n * days \<le> MAXIMUM_FUNDING_PERIOD) \<and>
   transact 7 (Call 1 (CreateProject ''School'' ''A school'' (200 * 10 ^ 16) 30) True []) paused_funded
     = (Inl SystemPaused, paused_funded) \<and>
   transact 7 (Call 2 (CreateProject ''School'' ''A school'' (200 * 10 ^ 16) 30) True []) well_open
     = (Inl PermissionDenied, well_open)"
proof (intro conjI notI)
  show p: "transact 7 (Call 1 (CreateProject ''School'' ''A school'' (200 * 10 ^ 16) 30) True [])
        paused_funded = (Inl SystemPaused, paused_funded)"
    by (simp add: transact_def void_def createProject_def whenNotPaused_def paused_funded_eval)
  show "transact 7 (Call 2 (CreateProject ''School'' ''A school'' (200 * 10 ^ 16) 30) True []) well_open
     = (Inl PermissionDenied, well_open)"
    by (simp add: transact_def void_def createProject_def whenNotPaused_def onlyRole_def
        well_open_eval)
  assume "\<forall>s now a t d g n ok cs.
        fst (transact now (Call a (CreateProject t d g n) ok cs) s) = Inr Void \<longleftrightarrow>
        0 < g \<and> MINIMUM_FUNDING_PERIOD \<le> n * days \<and> n * days \<le> MAXIMUM_FUNDING_PERIOD"
  moreover have "fst (transact 7 (Call 1 (CreateProject ''School'' ''A school'' (200 * 10 ^ 16) 30) True [])
        paused_funded) \<noteq> Inr Void"
    using p by simp
  moreover have "(0::nat) < 200 * 10 ^ 16 \<and> MINIMUM_FUNDING_PERIOD \<le> 30 * days \<and>
      30 * days \<le> MAXIMUM_FUNDING_PERIOD"
    by (simp add: MINIMUM_FUNDING_PERIOD_def MAXIMUM_FUNDING_PERIOD_def days_def)
  ultimately show False by blast
qed

text \<open>
  Claim C8, amended. \<^verbatim>\<open>createProject\<close> succeeds if and only if the system is not
  paused, the caller holds the ProjectCreator role, \<open>goalAmount > 0\<close>, the duration
  \<open>durationInDays * 1 days\<close> lies between \<open>MINIMUM_FUNDING_PERIOD\<close> and
  \<open>MAXIMUM_FUNDING_PERIOD\<close> (that is, \<open>durationInDays\<close> between 1 and 90 inclusive),
  and neither the counter nor the deadline leaves the range of \<^verbatim>\<open>uint256\<close>. On success
  the new project has the id \<open>projectCount\<close> had before the call, the counter is one
  more (and never goes back below, whatever transactions follow, so no id is assigned
  twice), the status is \<open>Active\<close>, the deadline is the block time plus the duration,
  the creator is the caller, and no other project is touched. A failed call leaves the
  storage as it was.
\<close>

theorem C8_createProject:
  "(fst (transact now (Call a (CreateProject t d g n) ok cs) s) = Inr Void \<longleftrightarrow>
      \<not> paused s \<and> roles s PROJECT_CREATOR_ROLE a \<and>
      0 < g \<and> MINIMUM_FUNDING_PERIOD \<le> n * days \<and> n * days \<le> MAXIMUM_FUNDING_PERIOD \<and>
      projectCount s < max_uint256 \<and> now + n * days \<le> max_uint256) \<and>
   (MINIMUM_FUNDING_PERIOD \<le> n * days \<and> n * days \<le> MAXIMUM_FUNDING_PERIOD \<longleftrightarrow>
      1 \<le> n \<and> n \<le> 90) \<and>
   (\<forall>s'. transact now (Call a (CreateProject t d g n) ok cs) s = (Inr Void, s') \<longrightarrow>
      projectCount s' = projectCount s + 1 \<and>
      status (projects s' (projectCount s)) = Active \<and>
      deadline (projects s' (projectCount s)) = now + n * days \<and>
      creator (projects s' (projectCount s)) = a \<and>
      goalAmount (projects s' (projectCount s)) = g \<and>
      (\<forall>q. q \<noteq> projectCount s \<longrightarrow> projects s' q = projects s q) \<and>
      (\<forall>txs. projectCount s < projectCount (run txs s'))) \<and>
   (isl (fst (transact now (Call a (CreateProject t d g n) ok cs) s)) \<longrightarrow>
      snd (transact now (Call a (CreateProject t d g n) ok cs) s) = s)"
proof -
  have A: "fst (transact now (Call a (CreateProject t d g n) ok cs) s) = Inr Void \<longleftrightarrow>
      \<not> paused s \<and> roles s PROJECT_CREATOR_ROLE a \<and>
      0 < g \<and> MINIMUM_FUNDING_PERIOD \<le> n * days \<and> n * days \<le> MAXIMUM_FUNDING_PERIOD \<and>
      projectCount s < max_uint256 \<and> now + n * days \<le> max_uint256"
  proof -
    have "fst (transact now (Call a (CreateProject t d g n) ok cs) s) = Inr Void \<longleftrightarrow>
            (\<exists>s'. createProject a now t d g n s = Inr s')"
      by (cases "createProject a now t d g n s") (simp_all add: transact_def void_def)
    also have "\<dots> \<longleftrightarrow> \<not> paused s \<and> roles s PROJECT_CREATOR_ROLE a \<and>
      0 < g \<and> MINIMUM_FUNDING_PERIOD \<le> n * days \<and> n * days \<le> MAXIMUM_FUNDING_PERIOD \<and>
      projectCount s < max_uint256 \<and> now + n * days \<le> max_uint256"
      by (auto simp: createProject_Inr)
    finally show ?thesis .
  qed
  have C: "projectCount s' = projectCount s + 1 \<and>
            status (projects s' (projectCount s)) = Active \<and>
            deadline (projects s' (projectCount s)) = now + n * days \<and>
            creator (projects s' (projectCount s)) = a \<and>
            goalAmount (projects s' (projectCount s)) = g \<and>
            (\<forall>q. q \<noteq> projectCount s \<longrightarrow> projects s' q = projects s q) \<and>
            (\<forall>txs. projectCount s < projectCount (run txs s'))"
    if "transact now (Call a (CreateProject t d g n) ok cs) s = (Inr Void, s')" for s'
  proof -
    from that have cp: "createProject a now t d g n s = Inr s'"
      by (auto simp: transact_def void_def split: sum.splits)
    then have pc: "projectCount s' = projectCount s + 1"
      by (simp add: createProject_Inr)
    have "projectCount s < projectCount (run txs s')" for txs
      using run_projectCount_mono [of s' txs] pc by simp
    with cp show ?thesis by (simp add: createProject_Inr)
  qed
  have D: "isl (fst (transact now (Call a (CreateProject t d g n) ok cs) s)) \<longrightarrow>
            snd (transact now (Call a (CreateProject t d g n) ok cs) s) = s"
    by (auto simp: transact_def split: sum.splits)
  from A C D funding_period_days [of n] show ?thesis by blast
qed

theorem C8_createProject_witness:
  "\<not> paused well_open \<and> roles well_open PROJECT_CREATOR_ROLE 1 \<and>
   projectCount well_open < max_uint256 \<and> 7 + 90 * days \<le> max_uint256 \<and>
   fst (transact 7 (Call 1 (CreateProject ''School'' ''A school'' (200 * 10 ^ 16) 90) True []) well_open)
     = Inr Void \<and>
   fst (transact 7 (Call 1 (CreateProject ''School'' ''A school'' (200 * 10 ^ 16) 91) True []) well_open)
     \<noteq> Inr Void \<and>
   fst (transact 7 (Call 1 (CreateProject ''School'' ''A school'' 0 90) True []) well_open)
     \<noteq> Inr Void \<and>
   fst (transact 7 (Call 1 (CreateProject ''School'' ''A school'' (200 * 10 ^ 16) 0) True []) well_open)
     \<noteq> Inr Void \<and>
   projectCount well_open = 1 \<and>
   projectCount (snd (transact 7 (Call 1 (CreateProject ''School'' ''A school'' (200 * 10 ^ 16) 90) True [])
      well_open)) = 2"
proof -
  have h: "\<not> paused well_open" "roles well_open PROJECT_CREATOR_ROLE 1"
    "projectCount well_open < max_uint256" "7 + 90 * days \<le> max_uint256"
    and pc: "projectCount well_open = 1"
    by (simp_all add: well_open_eval max_uint256_def days_def)
  have m: "MINIMUM_FUNDING_PERIOD \<le> 90 * days" "90 * days \<le> MAXIMUM_FUNDING_PERIOD"
    "\<not> 91 * days \<le> MAXIMUM_FUNDING_PERIOD" "\<not> MINIMUM_FUNDING_PERIOD \<le> 0 * days"
    by (simp_all add: MINIMUM_FUNDING_PERIOD_def MAXIMUM_FUNDING_PERIOD_def days_def)
  note T = C8_createProject [where now = 7 and a = 1 and s = well_open and t = "''School''"
      and d = "''A school''" and ok = True and cs = "[]"]
  have 1: "fst (transact 7 (Call 1 (CreateProject ''School'' ''A school'' (200 * 10 ^ 16) 90) True []) well_open)
     = Inr Void"
    using T [where g = "200 * 10 ^ 16" and n = 90] h m by simp
  have 2: "fst (transact 7 (Call 1 (CreateProject ''School'' ''A school'' (200 * 10 ^ 16) 91) True []) well_open)
     \<noteq> Inr Void"
    using T [where g = "200 * 10 ^ 16" and n = 91] m by simp
  have 3: "fst (transact 7 (Call 1 (CreateProject ''School'' ''A school'' 0 90) True []) well_open)
     \<noteq> Inr Void"
    using T [where g = 0 and n = 90] by simp
  have 4: "fst (transact 7 (Call 1 (CreateProject ''School'' ''A school'' (200 * 10 ^ 16) 0) True []) well_open)
     \<noteq> Inr Void"
    using T [where g = "200 * 10 ^ 16" and n = 0] m by simp
  have 5: "projectCount (snd (transact 7 (Call 1 (CreateProject ''School'' ''A school'' (200 * 10 ^ 16) 90) True [])
      well_open)) = 2"
    using T [where g = "200 * 10 ^ 16" and n = 90] 1 pc
    by (metis Suc_1 Suc_eq_plus1 prod.collapse)
  from h pc 1 2 3 4 5 show ?thesis by simp
qed

text \<open>
  Claim C9, as stated, fails: \<^verbatim>\<open>createProject\<close> and \<^verbatim>\<open>submitExpense\<close> declare no
  return value, so a successful call hands nothing back to its caller; the sample
  ledger's first project and first expense show it.
\<close>

theorem C9_no_return_value_counterexample:
  "\<not> (\<forall>now a t d g n ok cs s r s'.
        exec now (Call a (CreateProject t d g n) ok cs) s = Inr (r, s') \<longrightarrow>
        r = Uint (projectCount s)) \<and>
   \<not> (\<forall>now a p d am c u ok cs s r s'.
        exec now (Call a (SubmitExpense p d am c u) ok cs) s = Inr (r, s') \<longrightarrow>
        r = Uint (length (projectExpenses s p)))"
proof (intro conjI notI)
  assume all: "\<forall>now a t d g n ok cs s r s'.
        exec now (Call a (CreateProject t d g n) ok cs) s = Inr (r, s') \<longrightarrow>
        r = Uint (projectCount s)"
  have "exec 0 (Call 1 (CreateProject ''Well'' ''A village well'' (100 * 10 ^ 16) 10) True [])
          (constructor 1) = Inr (Void, well_open)"
    by (simp add: well_open_def tx_create_def transact_def split: sum.splits)
       (simp add: eval_defs)
  with all have "Void = Uint (projectCount (constructor 1))" by blast
  then show False by simp
next
  assume all: "\<forall>now a p d am c u ok cs s r s'.
        exec now (Call a (SubmitExpense p d am c u) ok cs) s = Inr (r, s') \<longrightarrow>
        r = Uint (length (projectExpenses s p))"
  have "exec 6 (Call 1 (SubmitExpense 0 ''Pump'' (50 * 10 ^ 16) Infrastructure ''ipfs://pump'') True [])
          well_funded = Inr (Void, run [tx_expense] well_funded)"
    by (simp add: tx_expense_def transact_def split: sum.splits)
       (simp add: well_funded_eval eval_defs)
  with all have "Void = Uint (length (projectExpenses well_funded 0))" by blast
  then show False by simp
qed

text \<open>
  Claim C9, amended. A successful \<^verbatim>\<open>createProject\<close> returns nothing; it records the
  caller as creator of the project whose id is the counter before the call and emits
  \<open>ProjectCreated\<close> with that id as the last event of the log. A successful
  \<^verbatim>\<open>submitExpense\<close> returns nothing; it appends the unapproved expense to the
  project's list and emits \<open>ExpenseSubmitted\<close> with the index of the appended expense
  (the length of the list before the call) as the last event of the log.
\<close>

theorem C9_ids_in_events:
  "(\<forall>r s'. exec now (Call a (CreateProject t d g n) ok cs) s = Inr (r, s') \<longrightarrow>
      r = Void \<and>
      creator (projects s' (projectCount s)) = a \<and>
      events s' = events s @ [ProjectCreated (projectCount s) t a g (now + n * days)]) \<and>
   (\<forall>r s'. exec now (Call a (SubmitExpense p d am c u) ok cs) s = Inr (r, s') \<longrightarrow>
      r = Void \<and>
      projectExpenses s' p = projectExpenses s p @
        [\<lparr> exp_description = d, exp_amount = am, exp_category = c,
           exp_timestamp = now, exp_approved = False, exp_proofUrl = u \<rparr>] \<and>
      events s' = events s @ [ExpenseSubmitted p (length (projectExpenses s p)) d am])"
  by (auto simp: void_Inr createProject_Inr submitExpense_Inr)

theorem C9_ids_in_events_witness:
  "exec 0 (snd tx_create) (constructor 1) = Inr (Void, well_open) \<and>
   events well_open = [ProjectCreated 0 ''Well'' 1 (100 * 10 ^ 16) (10 * days)] \<and>
   exec 6 (snd tx_expense) well_funded = Inr (Void, run [tx_expense] well_funded) \<and>
   events (run [tx_expense] well_funded) =
     events well_funded @ [ExpenseSubmitted 0 0 ''Pump'' (50 * 10 ^ 16)]"
proof -
  have c: "exec 0 (Call 1 (CreateProject ''Well'' ''A village well'' (100 * 10 ^ 16) 10) True [])
             (constructor 1) = Inr (Void, well_open)"
    by (simp add: well_open_def tx_create_def transact_def split: sum.splits)
       (simp add: eval_defs)
  have e: "exec 6 (Call 1 (SubmitExpense 0 ''Pump'' (50 * 10 ^ 16) Infrastructure ''ipfs://pump'') True [])
             well_funded = Inr (Void, run [tx_expense] well_funded)"
    by (simp add: tx_expense_def transact_def split: sum.splits)
       (simp add: well_funded_eval eval_defs)
  have z: "events (constructor 1) = []" "projectCount (constructor 1) = 0"
    "projectExpenses well_funded 0 = []"
    by (simp_all add: constructor_def well_funded_eval)
  from C9_ids_in_events [where now = 0 and a = 1 and t = "''Well''" and d = "''A village well''"
      and g = "100 * 10 ^ 16" and n = 10 and ok = True and cs = "[]" and s = "constructor 1"]
    C9_ids_in_events [where now = 6 and a = 1 and p = 0 and d = "''Pump''" and am = "50 * 10 ^ 16"
      and c = Infrastructure and u = "''ipfs://pump''" and ok = True and cs = "[]" and s = well_funded]
    c e z
  show ?thesis by (simp add: tx_create_def tx_expense_def)
qed

text \<open>
  Claim C10 does not hold of the code. On a project whose status is \<open>Cancelled\<close>
  \<^verbatim>\<open>approveExpense\<close> does fail and leave the storage as it was
  (\<open>approveExpense_cancelled\<close>), also for an Admin and an existing unapproved expense,
  as for project 0 cancelled with its expense pending; and a cancelled project whose id
  is below the counter stays cancelled with its expenses and totals as they were
  (\<open>run_frozen\<close>). But a cancellation does not last when it comes before the project
  is created: id 1, cancelled by the Admin while only project 0 exists, is made
  \<open>Active\<close> again by the next \<^verbatim>\<open>createProject\<close>; once it is funded and its creator has
  submitted an expense, the Admin's \<^verbatim>\<open>approveExpense\<close> succeeds and 50 of the 80 units
  the contract holds are paid out.
\<close>

theorem C10_approved_after_cancel:
  "status (projects unborn_cancelled 1) = Cancelled \<and>
   revived_pending = run [tx_create2, tx_pledge2, tx_expense_revived] unborn_cancelled \<and>
   length (projectExpenses revived_pending 1) = 1 \<and>
   \<not> exp_approved (projectExpenses revived_pending 1 ! 0) \<and>
   balance revived_pending = 80 * 10 ^ 16 \<and>
   fst (transact 8 (Call 1 (ApproveExpense 1 0) True []) revived_pending) = Inr Void \<and>
   exp_approved (projectExpenses (run [tx_approve_revived] revived_pending) 1 ! 0) \<and>
   totalExpenses (projects (run [tx_approve_revived] revived_pending) 1) = 50 * 10 ^ 16 \<and>
   balance (run [tx_approve_revived] revived_pending) = 30 * 10 ^ 16 \<and>
   status (projects cancelled_pending 0) = Cancelled \<and>
   length (projectExpenses cancelled_pending 0) = 1 \<and>
   \<not> exp_approved (projectExpenses cancelled_pending 0 ! 0) \<and>
   transact 8 (Call 1 (ApproveExpense 0 0) True []) cancelled_pending
     = (Inl (Revert ''Project is cancelled''), cancelled_pending)"
  by (simp add: revived_pending_def cancelled_pending_def tx_approve_revived_def
      tx_expense_revived_def tx_pledge2_def tx_cancel_def revived_def tx_create2_def
      unborn_cancelled_eval expense_pending_eval well_funded_eval well_open_eval eval_defs)

end
